theory Spec2Isabelle
  imports Complex_Main "HOL-Library.AList"
begin

section \<open>Data model\<close>

text \<open>
  JavaScript numbers that carry money, prices and percentages are modelled as \<open>real\<close>;
  counters that the code only ever increments from zero, and array lengths, are \<open>nat\<close>.
  Points in time (\<open>Date\<close> objects, compared through their millisecond value) are \<open>nat\<close>:
  milliseconds on the local clock.
\<close>

subsection \<open>JavaScript numbers\<close>

text \<open>
  A JavaScript number is an IEEE 754 double. The size of a position is the one value of
  the program that goes through \<open>Math.floor\<close>, which makes the rounding of every product
  and quotient before it visible; it is therefore computed on doubles, and the quantity
  of an order and of a position is a double: a finite one (given by its value), an
  infinity or \<open>NaN\<close>. The sign of a zero is not kept: the code modelled here neither
  divides by a zero nor tells the two zeros apart.
\<close>

datatype jsnum = Num real | PosInfinity | NegInfinity | NaN

text \<open>
  Several JavaScript objects of the program use the same key (\<open>config\<close>,
  \<open>initialCapital\<close>, \<open>quantity\<close>, \<open>reason\<close>, ...). A record field is a constant, so the record
  declared last owns the short name and the earlier ones are written qualified, as in
  \<open>strategy_config.initialCapital\<close>.
\<close>

subsection \<open>Market data (MarketDataService)\<close>

text \<open>
  The price fields shared by a stored candle, a quote handed to \<open>updateMarketData\<close> or to
  the strategy, and a candle returned by the venue's historical-data call. The key
  \<open>open\<close> is written \<open>open_price\<close>.
\<close>

record ohlcv =
  open_price :: real
  high :: real
  low :: real
  close :: real
  volume :: real

record candle = ohlcv +
  timestamp :: nat

record market_data = ohlcv +
  ltp :: real

record historical = ohlcv +
  date :: nat

record instrument_data =
  token :: nat

text \<open>
  A JavaScript \<open>Map\<close> keeps its keys in insertion order, and \<open>set\<close> on a key that is
  present replaces the value where it stands: an association list under \<open>AList.update\<close>.
  The candles of one symbol are keyed by the millisecond value of their minute.
\<close>

type_synonym symbol_candles = "(nat \<times> candle) list"

type_synonym candle_data = "string \<Rightarrow> symbol_candles option"

subsection \<open>Order manager (OrderManager)\<close>

text \<open>
  The key \<open>product\<close> is written \<open>product_code\<close>. \<open>price\<close> and \<open>trigger_price\<close> are absent
  from a market order.
\<close>

record order_params =
  symbol :: string
  exchange :: string
  transaction_type :: string
  quantity :: jsnum
  order_type :: string
  product_code :: string
  validity :: string
  price :: "real option"
  trigger_price :: "real option"

datatype validation_error =
    MissingRequiredField string
  | QuantityMustBeGreaterThanZero
  | PriceRequiredForLimitOrders
  | TriggerPriceRequiredForStopLossOrders

record validation =
  isValid :: bool
  errors :: "validation_error list"

text \<open>
  What one call of the venue's \<open>placeOrder\<close> does: it throws (the promise rejects) with a
  message, or it returns a response whose \<open>order_id\<close> may be missing.
\<close>

datatype kite_response =
    Rejects string
  | Responds "string option"

text \<open>The \<open>message\<close> of the error caught in \<open>placeOrder\<close>, by its origin.\<close>

datatype order_error =
    OrderValidationFailed "validation_error list"
  | VenueError string
  | NoOrderIdReceived

record active_order =
  orderId :: string
  params :: order_params
  status :: string
  placedAt :: nat
  attempts :: nat

record order_config =
  retryAttempts :: nat
  retryDelay :: nat
  orderTimeout :: nat

record OrderManager =
  config :: order_config
  activeOrders :: "(string \<times> active_order) list"
  orderHistory :: "active_order list"

text \<open>
  The object \<open>placeOrder\<close> returns: \<open>{success, order_id, message}\<close> when the order was
  accepted, \<open>{success, error, attempts}\<close> when it was not.
\<close>

record place_result =
  success :: bool
  order_id :: "string option"
  message :: "string option"
  error :: "order_error option"
  attempts :: "nat option"

subsection \<open>Strategy (TradingStrategy.js)\<close>

record signal =
  shouldEnter :: bool
  direction :: string
  entryPrice :: real
  reason :: string

text \<open>
  The configuration after the constructor has filled in its defaults. The two times of
  day are kept as the pair (hours, minutes) that \<open>parseTime\<close> splits the string
  \<open>HH:MM\<close> into. Keys the strategy never reads (\<open>maxTradesPerDay\<close>,
  \<open>maxDailyLossPercent\<close>) are left out. The three numbers that the size of a position is
  computed from (\<open>initialCapital\<close>, \<open>positionSizePercent\<close>, \<open>followUpSizeReduction\<close>) are
  kept as they are written in the configuration; the double that the program holds for
  a number written \<open>x\<close> is \<open>to_double x\<close>, taken where the number is read.
\<close>

record strategy_config =
  initialCapital :: real
  positionSizePercent :: real
  initialProfitTarget :: real
  initialStopLoss :: real
  followUpProfitTarget :: real
  followUpStopLoss :: real
  followUpSizeReduction :: real
  tradingStartTime :: "nat \<times> nat"
  tradingEndTime :: "nat \<times> nat"
  instrument :: string
  exchange :: string

record position =
  orderId :: "string option"
  entryPrice :: real
  quantity :: jsnum
  direction :: string
  targetPrice :: real
  stopLossPrice :: real
  entryTime :: nat
  isFollowUp :: bool

text \<open>\<open>{...position, exitTime, exitReason, pnl}\<close>\<close>

record trade = position +
  exitTime :: nat
  exitReason :: string
  pnl :: real

text \<open>
  \<open>nextPositionSizeMultiplier\<close> is not set by the constructor: \<open>None\<close> is the missing
  key. \<open>currentPosition\<close>, \<open>lastTradeTime\<close> and \<open>candleEndTime\<close> start as \<open>null\<close>. The key
  \<open>isMarketHours\<close> of the state object is written once by the constructor and never
  read; it is left out.
\<close>

record strategy_state =
  currentPosition :: "position option"
  dailyTrades :: "trade list"
  dailyPnL :: real
  lastTradeTime :: "nat option"
  waitingForCandle :: bool
  candleEndTime :: "nat option"
  nextPositionSizeMultiplier :: "real option"

text \<open>
  The \<open>reason\<close> string of a check result, by its template; the number interpolated into
  the template is kept as the payload (the code prints it with \<open>toFixed(2)\<close>).
  \<open>NoReason\<close> is the empty string the result starts with.
\<close>

datatype block_reason =
    NoReason
  | DailyLossLimitReached real
  | EmergencyStopLossTriggered real
  | MaxTradesPerDayReached nat
  | MaxConsecutiveLossesReached nat

text \<open>
  The object a strategy call returns, by its \<open>action\<close> key, with the other keys as
  arguments. \<open>UNDEFINED\<close> is the value of a call that ends without a \<open>return\<close>.
\<close>

datatype no_action_reason =
    OutsideTradingHours
  | RiskCheckFailed block_reason
  | NoEntrySignal

datatype action =
    NO_ACTION no_action_reason
  | WAITING
  | POSITION_ENTERED position string
  | MONITORING position
  | TARGET_HIT position nat
  | STOP_LOSS_HIT position nat
  | ERROR string
  | UNDEFINED

subsection \<open>Risk manager (RiskManager.js)\<close>

text \<open>
  The object handed to the constructor: a key that is absent is \<open>None\<close>. The constructor
  writes \<open>key: config.key || default\<close> and then spreads \<open>...config\<close> over the result, so a
  key that is present keeps its own value and only an absent key takes the default.
\<close>

record risk_options =
  opt_maxDailyLossPercent :: "real option"
  opt_maxTradesPerDay :: "nat option"
  opt_maxPositionSizePercent :: "real option"
  opt_initialCapital :: "real option"
  opt_emergencyStopLossPercent :: "real option"
  opt_maxConsecutiveLosses :: "nat option"

record risk_config =
  maxDailyLossPercent :: real
  maxTradesPerDay :: nat
  maxPositionSizePercent :: real
  initialCapital :: real
  emergencyStopLossPercent :: real
  maxConsecutiveLosses :: nat

record daily_stats =
  totalPnL :: real
  tradesCount :: nat
  consecutiveLosses :: nat
  maxDrawdown :: real
  startingCapital :: real

record risk_limits =
  dailyLossLimit :: real
  emergencyStopLimit :: real

record RiskManager =
  config :: risk_config
  dailyStats :: daily_stats
  riskLimits :: risk_limits

datatype limit_warning =
    ApproachingDailyLossLimit real
  | ApproachingDailyTradeLimit nat nat

record checks =
  canTrade :: bool
  reason :: block_reason
  warnings :: "limit_warning list"

section \<open>JavaScript double arithmetic\<close>

text \<open>
  The binary exponent of a real number other than 0: \<open>2 ^ e \<le> |x| < 2 ^ (e + 1)\<close>.
\<close>

definition expo :: "real \<Rightarrow> int" where
  "expo x = \<lfloor>log 2 \<bar>x\<bar>\<rfloor>"

text \<open>The nearest integer, a tie going to the even one.\<close>

definition round_half_even :: "real \<Rightarrow> int" where
  "round_half_even q =
     (let f = \<lfloor>q\<rfloor>; d = q - real_of_int f
      in if d < 1 / 2 then f
         else if 1 / 2 < d then f + 1
         else if even f then f else f + 1)"

text \<open>
  Rounding to the nearest double, ties to even, with no bound on the exponent from
  above: a double has 53 significant bits, so the doubles around \<open>x\<close> are the multiples of
  \<open>2 ^ (e - 52)\<close> for the exponent \<open>e\<close> of \<open>x\<close>, and of \<open>2 ^ (- 1074)\<close> where \<open>x\<close> is below
  the smallest normal number \<open>2 ^ (- 1022)\<close>.
\<close>

definition rd :: "real \<Rightarrow> real" where
  "rd x =
     (if x = 0 then 0
      else (let e = max (expo x) (- 1022);
                u = 2 powi (e - 52)
            in real_of_int (round_half_even (x / u)) * u))"

text \<open>
  The double that an exact result \<open>x\<close> is delivered as: \<open>rd x\<close>, or an infinity when that
  is \<open>2 ^ 1024\<close> or more in magnitude. This is also how a number written in a program or
  a configuration is read.
\<close>

definition to_double :: "real \<Rightarrow> jsnum" where
  "to_double x =
     (let r = rd x
      in if 2 ^ 1024 \<le> r then PosInfinity
         else if r \<le> - (2 ^ 1024) then NegInfinity
         else Num r)"

text \<open>\<open>a * b\<close>\<close>

fun js_mul :: "jsnum \<Rightarrow> jsnum \<Rightarrow> jsnum" where
  "js_mul (Num a) (Num b) = to_double (a * b)"
| "js_mul (Num a) PosInfinity =
     (if a = 0 then NaN else if 0 < a then PosInfinity else NegInfinity)"
| "js_mul (Num a) NegInfinity =
     (if a = 0 then NaN else if 0 < a then NegInfinity else PosInfinity)"
| "js_mul PosInfinity (Num b) =
     (if b = 0 then NaN else if 0 < b then PosInfinity else NegInfinity)"
| "js_mul NegInfinity (Num b) =
     (if b = 0 then NaN else if 0 < b then NegInfinity else PosInfinity)"
| "js_mul PosInfinity PosInfinity = PosInfinity"
| "js_mul PosInfinity NegInfinity = NegInfinity"
| "js_mul NegInfinity PosInfinity = NegInfinity"
| "js_mul NegInfinity NegInfinity = PosInfinity"
| "js_mul NaN b = NaN"
| "js_mul a NaN = NaN"

text \<open>\<open>a / 100\<close>, the only division of the size computation.\<close>

definition js_div_100 :: "jsnum \<Rightarrow> jsnum" where
  "js_div_100 a = (case a of Num x \<Rightarrow> to_double (x / 100) | _ \<Rightarrow> a)"

text \<open>\<open>Math.floor(a)\<close>: the floor of a finite double is a double.\<close>

definition js_floor :: "jsnum \<Rightarrow> jsnum" where
  "js_floor a = (case a of Num x \<Rightarrow> Num (real_of_int \<lfloor>x\<rfloor>) | _ \<Rightarrow> a)"

text \<open>A number as a condition: 0 and \<open>NaN\<close> are falsy.\<close>

definition js_truthy :: "jsnum \<Rightarrow> bool" where
  "js_truthy a = (case a of Num x \<Rightarrow> x \<noteq> 0 | NaN \<Rightarrow> False | _ \<Rightarrow> True)"

text \<open>\<open>a <= 0\<close>\<close>

definition js_le_zero :: "jsnum \<Rightarrow> bool" where
  "js_le_zero a = (case a of Num x \<Rightarrow> x \<le> 0 | NegInfinity \<Rightarrow> True | _ \<Rightarrow> False)"

text \<open>
  The value of a finite number, for the amounts that this development keeps as real
  numbers. A number that is not finite has none; the profit-and-loss of a position
  with such a quantity is not finite either, and no statement below is about it.
\<close>

definition js_real :: "jsnum \<Rightarrow> real" where
  "js_real a = (case a of Num x \<Rightarrow> x | _ \<Rightarrow> 0)"

section \<open>RiskManager operations\<close>

definition or_default :: "'a option \<Rightarrow> 'a \<Rightarrow> 'a" where
  "or_default v d = (case v of None \<Rightarrow> d | Some x \<Rightarrow> x)"

definition RiskManager_new :: "risk_options \<Rightarrow> RiskManager" where
  "RiskManager_new opts =
     (let cfg = \<lparr> maxDailyLossPercent = or_default (opt_maxDailyLossPercent opts) 2,
                  maxTradesPerDay = or_default (opt_maxTradesPerDay opts) 5,
                  maxPositionSizePercent = or_default (opt_maxPositionSizePercent opts) 10,
                  initialCapital = or_default (opt_initialCapital opts) 100000,
                  emergencyStopLossPercent = or_default (opt_emergencyStopLossPercent opts) 5,
                  maxConsecutiveLosses = or_default (opt_maxConsecutiveLosses opts) 3 \<rparr>
      in \<lparr> config = cfg,
           dailyStats = \<lparr> totalPnL = 0, tradesCount = 0, consecutiveLosses = 0,
                          maxDrawdown = 0, startingCapital = initialCapital cfg \<rparr>,
           riskLimits = \<lparr> dailyLossLimit =
                            initialCapital cfg * maxDailyLossPercent cfg / 100,
                          emergencyStopLimit =
                            initialCapital cfg * emergencyStopLossPercent cfg / 100 \<rparr> \<rparr>)"

definition default_options :: risk_options where
  "default_options =
     \<lparr> opt_maxDailyLossPercent = None, opt_maxTradesPerDay = None,
       opt_maxPositionSizePercent = None, opt_initialCapital = None,
       opt_emergencyStopLossPercent = None, opt_maxConsecutiveLosses = None \<rparr>"

text \<open>
  \<open>Math.abs(currentPnL) / initialCapital * 100 > maxDailyLossPercent * 0.7\<close>.
  JavaScript does not fail on a zero divisor: a positive dividend gives \<open>Infinity\<close>, which
  exceeds every finite bound, and \<open>0 / 0\<close> gives \<open>NaN\<close>, for which every comparison is
  false. HOL's \<open>x / 0 = 0\<close> is not that, so the zero divisor is a branch of its own.
  (The percentage printed in the warning is then \<open>Infinity\<close>, which the payload of
  \<open>ApproachingDailyLossLimit\<close> cannot hold; no property below reads that payload.)
  The comparison is made on real numbers. The code rounds the quotient and both
  products to doubles, which moves a percentage that lies on the bound across it: at a
  profit-and-loss of 1400 the default manager computes 1.4000000000000001 against the
  bound 1.4 and warns, where the real numbers are equal. Only the warning list of a
  result that allows trading depends on this, and no property below reads that list.
\<close>

definition lossPercentage_exceeds :: "real \<Rightarrow> real \<Rightarrow> real \<Rightarrow> bool" where
  "lossPercentage_exceeds currentPnL capital bound =
     (if capital = 0 then \<bar>currentPnL\<bar> > 0
      else \<bar>currentPnL\<bar> / capital * 100 > bound)"

definition checkDailyLimits :: "RiskManager \<Rightarrow> real \<Rightarrow> nat \<Rightarrow> checks" where
  "checkDailyLimits rm currentPnL tradesCnt =
     (let checks0 = \<lparr> canTrade = True, reason = NoReason, warnings = [] \<rparr> in
      if \<bar>currentPnL\<bar> \<ge> dailyLossLimit (riskLimits rm) then
        checks0 \<lparr> canTrade := False, reason := DailyLossLimitReached \<bar>currentPnL\<bar> \<rparr>
      else if \<bar>currentPnL\<bar> \<ge> emergencyStopLimit (riskLimits rm) then
        checks0 \<lparr> canTrade := False, reason := EmergencyStopLossTriggered \<bar>currentPnL\<bar> \<rparr>
      else if tradesCnt \<ge> maxTradesPerDay (config rm) then
        checks0 \<lparr> canTrade := False, reason := MaxTradesPerDayReached tradesCnt \<rparr>
      else if consecutiveLosses (dailyStats rm) \<ge> maxConsecutiveLosses (config rm) then
        checks0 \<lparr> canTrade := False,
                  reason := MaxConsecutiveLossesReached (consecutiveLosses (dailyStats rm)) \<rparr>
      else
        (let checks1 =
               (if lossPercentage_exceeds currentPnL (initialCapital (config rm))
                     (maxDailyLossPercent (config rm) * 0.7)
                then checks0 \<lparr> warnings := warnings checks0 @
                        [ApproachingDailyLossLimit
                           (\<bar>currentPnL\<bar> / initialCapital (config rm) * 100)] \<rparr>
                else checks0);
             checks2 =
               (if real tradesCnt \<ge> real (maxTradesPerDay (config rm)) * 0.8
                then checks1 \<lparr> warnings := warnings checks1 @
                        [ApproachingDailyTradeLimit tradesCnt (maxTradesPerDay (config rm))] \<rparr>
                else checks1)
         in checks2))"

text \<open>
  \<open>updateDailyStats(trade)\<close> reads only \<open>trade.pnl\<close>, which is the second argument. The
  call of \<open>logRiskMetrics\<close> that ends it writes to the console and changes nothing.
\<close>

definition updateDailyStats :: "RiskManager \<Rightarrow> real \<Rightarrow> RiskManager" where
  "updateDailyStats rm trade_pnl =
     (let s1 = (dailyStats rm) \<lparr> totalPnL := totalPnL (dailyStats rm) + trade_pnl \<rparr>;
          s2 = s1 \<lparr> tradesCount := tradesCount s1 + 1 \<rparr>;
          s3 = (if trade_pnl < 0 then s2 \<lparr> consecutiveLosses := consecutiveLosses s2 + 1 \<rparr>
                else s2 \<lparr> consecutiveLosses := 0 \<rparr>);
          s4 = (if totalPnL s3 < maxDrawdown s3 then s3 \<lparr> maxDrawdown := totalPnL s3 \<rparr>
                else s3)
      in rm \<lparr> dailyStats := s4 \<rparr>)"

definition shouldTriggerEmergencyStop :: "RiskManager \<Rightarrow> bool" where
  "shouldTriggerEmergencyStop rm =
     (let currentLoss = \<bar>totalPnL (dailyStats rm)\<bar>
      in currentLoss \<ge> emergencyStopLimit (riskLimits rm))"

definition resetDailyStats :: "RiskManager \<Rightarrow> RiskManager" where
  "resetDailyStats rm =
     (let stats = \<lparr> totalPnL = 0, tradesCount = 0, consecutiveLosses = 0, maxDrawdown = 0,
                    startingCapital = initialCapital (config rm) + totalPnL (dailyStats rm) \<rparr>;
          cfg = (config rm) \<lparr> initialCapital := startingCapital stats \<rparr>;
          limits1 = (riskLimits rm)
                      \<lparr> dailyLossLimit := initialCapital cfg * maxDailyLossPercent cfg / 100 \<rparr>;
          limits2 = limits1
                      \<lparr> emergencyStopLimit :=
                          initialCapital cfg * emergencyStopLossPercent cfg / 100 \<rparr>
      in \<lparr> config = cfg, dailyStats = stats, riskLimits = limits2 \<rparr>)"

section \<open>MarketDataService operations\<close>

text \<open>
  \<open>updateCandleData(symbol, data)\<close>. \<open>now\<close> is the clock reading; \<open>currentMinute\<close> is
  that reading cut down to the minute. A \<open>Map\<close>'s size is the length of the list.
\<close>

definition updateCandleData ::
  "nat \<Rightarrow> candle_data \<Rightarrow> string \<Rightarrow> market_data \<Rightarrow> candle_data" where
  "updateCandleData now candleData symb data =
     (let currentMinute = now - now mod 60000;
          symbolCandles = (case candleData symb of None \<Rightarrow> [] | Some m \<Rightarrow> m);
          symbolCandles1 =
            (case map_of symbolCandles currentMinute of
               Some currentCandle \<Rightarrow>
                 AList.update currentMinute
                   (currentCandle \<lparr> high := max (high currentCandle) (ltp data),
                                    low := min (low currentCandle) (ltp data),
                                    close := ltp data,
                                    volume := volume data \<rparr>)
                   symbolCandles
             | None \<Rightarrow>
                 AList.update currentMinute
                   \<lparr> open_price = ltp data, high = ltp data, low = ltp data,
                     close = ltp data, volume = volume data, timestamp = currentMinute \<rparr>
                   symbolCandles);
          symbolCandles2 =
            (if length symbolCandles1 > 1000
             then (let oldestKey = Min (set (map fst symbolCandles1))
                   in AList.delete oldestKey symbolCandles1)
             else symbolCandles1)
      in candleData (symb \<mapsto> symbolCandles2))"

text \<open>The \<open>forEach\<close> of \<open>loadHistoricalData\<close>: every candle of the answer is stored.\<close>

definition storeHistorical :: "historical list \<Rightarrow> symbol_candles \<Rightarrow> symbol_candles" where
  "storeHistorical historicalData symbolCandles =
     fold (\<lambda>c m. AList.update (date c)
                    \<lparr> open_price = open_price c, high = high c, low = low c,
                      close = close c, volume = volume c, timestamp = date c \<rparr> m)
          historicalData symbolCandles"

text \<open>
  \<open>loadHistoricalData()\<close>. The venue's answer for a token is \<open>Inl\<close> when the call throws:
  the inner \<open>catch\<close> logs it and the loop goes on to the next symbol, with nothing stored
  for this one.
\<close>

definition loadHistoricalData ::
  "(nat \<Rightarrow> string + historical list) \<Rightarrow> (string \<times> instrument_data) list
     \<Rightarrow> candle_data \<Rightarrow> candle_data" where
  "loadHistoricalData kite_getHistoricalData marketData candleData =
     fold (\<lambda>(symb, data) cd.
             case kite_getHistoricalData (token data) of
               Inl err \<Rightarrow> cd
             | Inr historicalData \<Rightarrow>
                 cd (symb \<mapsto> storeHistorical historicalData
                                   (case cd symb of None \<Rightarrow> [] | Some m \<Rightarrow> m)))
          marketData candleData"

text \<open>
  \<open>aggregateCandles(candles, minutes)\<close>. The \<open>for\<close> loop advances \<open>i\<close> by \<open>minutes\<close>; with
  \<open>minutes = 0\<close> it does not advance at all, so the loop is a partial function and a
  result is \<open>Some\<close>. \<open>batch\<close> is \<open>candles.slice(i, i + minutes)\<close>; \<open>Math.max\<close> and
  \<open>Math.min\<close> are taken over a batch that is not empty.
\<close>

partial_function (option) aggregate_loop ::
  "candle list \<Rightarrow> nat \<Rightarrow> nat \<Rightarrow> candle list \<Rightarrow> candle list option" where
  "aggregate_loop candles minutes i aggregated =
     (if i < length candles then
        (case take minutes (drop i candles) of
           [] \<Rightarrow> aggregate_loop candles minutes (i + minutes) aggregated
         | b # bs \<Rightarrow>
             aggregate_loop candles minutes (i + minutes)
               (aggregated @
                 [\<lparr> open_price = open_price b,
                    high = fold max (map high bs) (high b),
                    low = fold min (map low bs) (low b),
                    close = close (last (b # bs)),
                    volume = fold (\<lambda>c sum. sum + volume c) (b # bs) 0,
                    timestamp = timestamp b \<rparr>]))
      else Some aggregated)"

definition aggregateCandles :: "candle list \<Rightarrow> nat \<Rightarrow> candle list option" where
  "aggregateCandles candles minutes = aggregate_loop candles minutes 0 []"

text \<open>
  \<open>xs.slice(-limit)\<close>: for a positive \<open>limit\<close> the last \<open>limit\<close> elements (all of them
  when there are fewer); for \<open>limit \<le> 0\<close> the start index \<open>-limit\<close> is not negative and
  counts from the front.
\<close>

definition slice_last :: "int \<Rightarrow> 'a list \<Rightarrow> 'a list" where
  "slice_last limit xs =
     (if limit > 0 then drop (length xs - nat limit) xs else drop (nat (- limit)) xs)"

definition getCandleData ::
  "candle_data \<Rightarrow> string \<Rightarrow> string \<Rightarrow> int \<Rightarrow> candle list option" where
  "getCandleData candleData symb timeframe limit =
     (case candleData symb of
        None \<Rightarrow> Some []
      | Some symbolCandles \<Rightarrow>
          (let candles = slice_last limit (sort_key timestamp (map snd symbolCandles))
           in if timeframe = ''hour'' then aggregateCandles candles 60
              else if timeframe = ''day'' then aggregateCandles candles (60 * 24)
              else Some candles))"

section \<open>OrderManager operations\<close>

definition validateOrderParams :: "order_params \<Rightarrow> validation" where
  "validateOrderParams ps =
     (let e1 = (if symbol ps = [] then [MissingRequiredField ''symbol''] else []);
          e2 = e1 @ (if order_params.exchange ps = []
                     then [MissingRequiredField ''exchange''] else []);
          e3 = e2 @ (if transaction_type ps = []
                     then [MissingRequiredField ''transaction_type''] else []);
          e4 = e3 @ (if \<not> js_truthy (order_params.quantity ps)
                     then [MissingRequiredField ''quantity''] else []);
          e5 = e4 @ (if order_type ps = [] then [MissingRequiredField ''order_type''] else []);
          e6 = e5 @ (if product_code ps = [] then [MissingRequiredField ''product''] else []);
          e7 = e6 @ (if js_truthy (order_params.quantity ps) \<and>
                        js_le_zero (order_params.quantity ps)
                     then [QuantityMustBeGreaterThanZero] else []);
          e8 = e7 @ (if order_type ps = ''LIMIT'' \<and>
                        (case price ps of None \<Rightarrow> True | Some x \<Rightarrow> x = 0 \<or> x \<le> 0)
                     then [PriceRequiredForLimitOrders] else []);
          e9 = e8 @ (if order_type ps = ''SL'' \<and>
                        (case trigger_price ps of None \<Rightarrow> True | Some x \<Rightarrow> x = 0 \<or> x \<le> 0)
                     then [TriggerPriceRequiredForStopLossOrders] else [])
      in \<lparr> isValid = (e9 = []), errors = e9 \<rparr>)"

text \<open>
  The body of the \<open>try\<close> block of \<open>placeOrder\<close> up to the point where the order is known
  to be accepted: \<open>Inr\<close> the order id, or \<open>Inl\<close> what was thrown. \<open>kite n ps\<close> is what the
  venue does with the submission made at retry count \<open>n\<close>; a submission that fails
  validation never reaches the venue.
\<close>

definition submitOrder ::
  "(nat \<Rightarrow> order_params \<Rightarrow> kite_response) \<Rightarrow> order_params \<Rightarrow> nat \<Rightarrow> order_error + string" where
  "submitOrder kite orderParams retryCount =
     (let v = validateOrderParams orderParams in
      if \<not> isValid v then Inl (OrderValidationFailed (errors v))
      else (case kite retryCount orderParams of
              Rejects msg \<Rightarrow> Inl (VenueError msg)
            | Responds None \<Rightarrow> Inl NoOrderIdReceived
            | Responds (Some oid) \<Rightarrow> if oid = [] then Inl NoOrderIdReceived else Inr oid))"

text \<open>
  \<open>placeOrder(orderParams, retryCount = 0)\<close>. \<open>now\<close> is the clock reading stored as
  \<open>placedAt\<close>. The order monitor that a successful call starts runs on a timer of its
  own and has no part in the value returned.
\<close>

function placeOrder ::
  "(nat \<Rightarrow> order_params \<Rightarrow> kite_response) \<Rightarrow> nat \<Rightarrow> OrderManager \<Rightarrow> order_params \<Rightarrow> nat
     \<Rightarrow> place_result \<times> OrderManager" where
  "placeOrder kite now om orderParams retryCount =
     (case submitOrder kite orderParams retryCount of
        Inr oid \<Rightarrow>
          (let ord = \<lparr> active_order.orderId = oid, params = orderParams,
                       status = ''PENDING'', placedAt = now,
                       active_order.attempts = retryCount + 1 \<rparr>
           in (\<lparr> success = True, order_id = Some oid,
                 message = Some ''Order placed successfully'',
                 error = None, attempts = None \<rparr>,
               om \<lparr> activeOrders := AList.update oid ord (activeOrders om),
                    orderHistory := orderHistory om @ [ord] \<rparr>))
      | Inl err \<Rightarrow>
          if retryCount < retryAttempts (OrderManager.config om)
          then placeOrder kite now om orderParams (retryCount + 1)
          else (\<lparr> success = False, order_id = None, message = None,
                  error = Some err, attempts = Some (retryCount + 1) \<rparr>, om))"
  by pat_completeness auto
termination
  by (relation "measure (\<lambda>(kite, now, om, ps, retryCount).
        retryAttempts (OrderManager.config om) - retryCount)") auto

declare placeOrder.simps [simp del]

section \<open>TradingStrategy operations\<close>

text \<open>
  One call of \<open>execute\<close> is modelled at one instant \<open>now\<close>: every \<open>new Date()\<close> of the
  call reads the same clock value. The clock counts local milliseconds from a midnight,
  so the day of an instant starts at \<open>startOfDay\<close>, and \<open>date.setHours(h, m, 0, 0)\<close> on a
  fresh \<open>Date\<close> is that start plus \<open>h\<close> hours and \<open>m\<close> minutes.
\<close>

definition startOfDay :: "nat \<Rightarrow> nat" where
  "startOfDay t = t - t mod 86400000"

definition getHours :: "nat \<Rightarrow> nat" where
  "getHours t = (t mod 86400000) div 3600000"

definition getMinutes :: "nat \<Rightarrow> nat" where
  "getMinutes t = (t mod 3600000) div 60000"

definition parseTime :: "nat \<Rightarrow> nat \<times> nat \<Rightarrow> nat" where
  "parseTime now timeString =
     (case timeString of (hours, minutes) \<Rightarrow>
        startOfDay now + hours * 3600000 + minutes * 60000)"

definition isMarketHours :: "strategy_config \<Rightarrow> nat \<Rightarrow> bool" where
  "isMarketHours cfg now =
     (let startTime = parseTime now (tradingStartTime cfg);
          endTime = parseTime now (tradingEndTime cfg)
      in now \<ge> startTime \<and> now \<le> endTime)"

text \<open>\<open>new Date() >= null\<close> compares with 0 and is true.\<close>

definition isCandleComplete :: "strategy_state \<Rightarrow> nat \<Rightarrow> bool" where
  "isCandleComplete st now = (case candleEndTime st of None \<Rightarrow> True | Some t \<Rightarrow> now \<ge> t)"

definition getNextCandleEndTime :: "nat \<Rightarrow> nat" where
  "getNextCandleEndTime now = startOfDay now + (getHours now + 1) * 3600000"

text \<open>
  \<open>calculatePositionSize()\<close>, in double arithmetic: the product
  \<open>initialCapital * positionSizePercent\<close> is rounded, then each of the two quotients by
  100, and the product with the multiplier. \<open>this.state.nextPositionSizeMultiplier || 1\<close>:
  a missing key and the number 0 both give 1.
\<close>

definition calculatePositionSize :: "strategy_config \<Rightarrow> strategy_state \<Rightarrow> jsnum" where
  "calculatePositionSize cfg st =
     (let baseSize =
            js_floor
              (js_div_100
                (js_div_100
                  (js_mul (to_double (strategy_config.initialCapital cfg))
                          (to_double (positionSizePercent cfg)))));
          multiplier = (case nextPositionSizeMultiplier st of
                          None \<Rightarrow> Num 1
                        | Some m \<Rightarrow> if js_truthy (to_double m) then to_double m else Num 1)
      in js_floor (js_mul baseSize multiplier))"

definition generateEntrySignal :: "market_data \<Rightarrow> signal" where
  "generateEntrySignal marketData =
     (let currentPrice = ltp marketData;
          openPrice = open_price marketData;
          shouldEnter = currentPrice > openPrice
      in \<lparr> shouldEnter = shouldEnter, signal.direction = ''BUY'',
           signal.entryPrice = currentPrice,
           signal.reason = (if shouldEnter then ''Price above opening''
                            else ''Price below opening'') \<rparr>)"

text \<open>
  \<open>position.exitReason\<close> as \<open>calculatePnL\<close> reads it. The object it is given is the
  position that \<open>enterPosition\<close> built, which has no such key (\<open>recordTrade\<close> puts
  \<open>exitReason\<close> on the trade it builds, not on the position): the read gives
  \<open>undefined\<close>.
\<close>

definition position_exitReason :: "position \<Rightarrow> string option" where
  "position_exitReason p = None"

definition calculatePnL :: "strategy_config \<Rightarrow> position \<Rightarrow> real" where
  "calculatePnL cfg p =
     (let targetHit = (position_exitReason p = Some ''TARGET_HIT'');
          profitPercent =
            (if targetHit
             then (if isFollowUp p then followUpProfitTarget cfg else initialProfitTarget cfg)
             else - (if isFollowUp p then followUpStopLoss cfg else initialStopLoss cfg))
      in entryPrice p * js_real (quantity p) * profitPercent / 100)"

definition recordTrade ::
  "strategy_config \<Rightarrow> nat \<Rightarrow> position \<Rightarrow> string \<Rightarrow> strategy_state \<Rightarrow> strategy_state" where
  "recordTrade cfg now p exitRsn st =
     (let trade = \<lparr> orderId = orderId p, entryPrice = entryPrice p, quantity = quantity p,
                    direction = direction p, targetPrice = targetPrice p,
                    stopLossPrice = stopLossPrice p, entryTime = entryTime p,
                    isFollowUp = isFollowUp p,
                    exitTime = now, exitReason = exitRsn, pnl = calculatePnL cfg p \<rparr>
      in st \<lparr> dailyTrades := dailyTrades st @ [trade],
              dailyPnL := dailyPnL st + pnl trade,
              currentPosition := None \<rparr>)"

text \<open>
  \<open>handleTargetHit\<close> and \<open>handleStopLossHit\<close> start with
  \<open>position = this.state.currentPosition\<close>; their only caller has just read the same
  object, which is the argument \<open>p\<close>. \<open>closePosition\<close> has an empty body.
\<close>

definition handleTargetHit ::
  "strategy_config \<Rightarrow> nat \<Rightarrow> position \<Rightarrow> strategy_state \<Rightarrow> action \<times> strategy_state" where
  "handleTargetHit cfg now p st =
     (let st1 = recordTrade cfg now p ''TARGET_HIT'' st;
          st2 = st1 \<lparr> waitingForCandle := True,
                      candleEndTime := Some (getNextCandleEndTime now) \<rparr>;
          st3 = st2 \<lparr> nextPositionSizeMultiplier := Some (followUpSizeReduction cfg) \<rparr>
      in (TARGET_HIT p (getNextCandleEndTime now), st3))"

definition handleStopLossHit ::
  "strategy_config \<Rightarrow> nat \<Rightarrow> position \<Rightarrow> strategy_state \<Rightarrow> action \<times> strategy_state" where
  "handleStopLossHit cfg now p st =
     (let st1 = recordTrade cfg now p ''STOP_LOSS_HIT'' st;
          st2 = st1 \<lparr> waitingForCandle := True,
                      candleEndTime := Some (getNextCandleEndTime now) \<rparr>;
          st3 = st2 \<lparr> nextPositionSizeMultiplier := Some 1 \<rparr>
      in (STOP_LOSS_HIT p (getNextCandleEndTime now), st3))"

definition manageExistingPosition ::
  "strategy_config \<Rightarrow> nat \<Rightarrow> market_data \<Rightarrow> position \<Rightarrow> strategy_state
     \<Rightarrow> action \<times> strategy_state" where
  "manageExistingPosition cfg now marketData p st =
     (let currentPrice = ltp marketData in
      if direction p = ''BUY'' then
        (if currentPrice \<ge> targetPrice p then handleTargetHit cfg now p st
         else if currentPrice \<le> stopLossPrice p then handleStopLossHit cfg now p st
         else (MONITORING p, st))
      else (MONITORING p, st))"

text \<open>
  \<open>enterPosition(signal, orderManager)\<close>. \<open>placeOrder\<close> catches whatever its body throws
  and \<open>placeExitOrders\<close> has an empty body, so the \<open>catch\<close> of \<open>enterPosition\<close> is never
  entered. When the order is not accepted the function ends without a \<open>return\<close>.
  The target and the stop price are real numbers here; the code's doubles agree with
  them up to their last bit (an entry at 250 gives 251.87500000000003 for the real
  251.875). The entries that the statements below give prices for are at 100 and 200,
  where the code's results are the doubles written 100.75, 99.65, 201.5 and 199.3.
\<close>

definition enterPosition ::
  "strategy_config \<Rightarrow> (nat \<Rightarrow> order_params \<Rightarrow> kite_response) \<Rightarrow> nat \<Rightarrow> signal
     \<Rightarrow> strategy_state \<times> OrderManager \<Rightarrow> action \<times> strategy_state \<times> OrderManager" where
  "enterPosition cfg kite now sig s =
     (case s of (st, om) \<Rightarrow>
      (let positionSize = calculatePositionSize cfg st;
           entryPrc = signal.entryPrice sig;
           profitTarget = (if currentPosition st \<noteq> None then followUpProfitTarget cfg
                           else initialProfitTarget cfg);
           stopLossPercent = (if currentPosition st \<noteq> None then followUpStopLoss cfg
                              else initialStopLoss cfg);
           targetPrc = entryPrc * (1 + profitTarget / 100);
           stopLossPrc = entryPrc * (1 - stopLossPercent / 100);
           ord = \<lparr> symbol = instrument cfg, order_params.exchange = exchange cfg,
                   transaction_type = signal.direction sig,
                   order_params.quantity = positionSize,
                   order_type = ''MARKET'', product_code = ''MIS'', validity = ''DAY'',
                   price = None, trigger_price = None \<rparr>
       in (case placeOrder kite now om ord 0 of (orderResult, om') \<Rightarrow>
             if success orderResult then
               (let p = \<lparr> orderId = order_id orderResult, entryPrice = entryPrc,
                          quantity = positionSize, direction = signal.direction sig,
                          targetPrice = targetPrc, stopLossPrice = stopLossPrc,
                          entryTime = now,
                          isFollowUp = (currentPosition st \<noteq> None) \<rparr>
                in (POSITION_ENTERED p (signal.reason sig),
                    st \<lparr> currentPosition := Some p \<rparr>, om'))
             else (UNDEFINED, st, om'))))"

definition lookForEntry ::
  "strategy_config \<Rightarrow> (nat \<Rightarrow> order_params \<Rightarrow> kite_response) \<Rightarrow> nat \<Rightarrow> market_data
     \<Rightarrow> strategy_state \<times> OrderManager \<Rightarrow> action \<times> strategy_state \<times> OrderManager" where
  "lookForEntry cfg kite now marketData s =
     (let currentTime = now;
          startTime = parseTime now (tradingStartTime cfg)
      in if getHours currentTime = getHours startTime \<and>
            getMinutes currentTime = getMinutes startTime
         then (let sig = generateEntrySignal marketData
               in if shouldEnter sig then enterPosition cfg kite now sig s
                  else (NO_ACTION NoEntrySignal, fst s, snd s))
         else (NO_ACTION NoEntrySignal, fst s, snd s))"

text \<open>
  \<open>execute(marketData, orderManager, riskManager)\<close>. The strategy's state and the order
  manager's are passed in and returned; the risk manager is only read. Nothing in the
  \<open>try\<close> block throws for a quote with numeric \<open>ltp\<close> and \<open>open\<close>, so the \<open>ERROR\<close> answer of
  the \<open>catch\<close> is not produced.
\<close>

definition execute ::
  "strategy_config \<Rightarrow> (nat \<Rightarrow> order_params \<Rightarrow> kite_response) \<Rightarrow> RiskManager \<Rightarrow> nat
     \<Rightarrow> market_data \<Rightarrow> strategy_state \<times> OrderManager
     \<Rightarrow> action \<times> strategy_state \<times> OrderManager" where
  "execute cfg kite riskManager now marketData s =
     (case s of (st, om) \<Rightarrow>
      if \<not> isMarketHours cfg now then (NO_ACTION OutsideTradingHours, st, om)
      else
        (let riskCheck = checkDailyLimits riskManager (dailyPnL st) (length (dailyTrades st))
         in if \<not> canTrade riskCheck then (NO_ACTION (RiskCheckFailed (reason riskCheck)), st, om)
            else if waitingForCandle st \<and> \<not> isCandleComplete st now then (WAITING, st, om)
            else
              (let st1 = (if waitingForCandle st then st \<lparr> waitingForCandle := False \<rparr>
                          else st)
               in (case currentPosition st1 of
                     Some p \<Rightarrow>
                       (case manageExistingPosition cfg now marketData p st1 of
                          (a, st2) \<Rightarrow> (a, st2, om))
                   | None \<Rightarrow> lookForEntry cfg kite now marketData (st1, om)))))"

text \<open>The constructor's defaults and the state it builds.\<close>

definition default_config :: strategy_config where
  "default_config =
     \<lparr> strategy_config.initialCapital = 100000, positionSizePercent = 2,
       initialProfitTarget = 0.75, initialStopLoss = 0.35,
       followUpProfitTarget = 0.35, followUpStopLoss = 0.15,
       followUpSizeReduction = 0.5,
       tradingStartTime = (10, 0), tradingEndTime = (15, 15),
       instrument = ''NIFTY'', exchange = ''NSE'' \<rparr>"

definition initial_state :: strategy_state where
  "initial_state =
     \<lparr> currentPosition = None, dailyTrades = [], dailyPnL = 0, lastTradeTime = None,
       waitingForCandle = False, candleEndTime = None,
       nextPositionSizeMultiplier = None \<rparr>"

definition OrderManager_new :: "nat option \<Rightarrow> OrderManager" where
  "OrderManager_new retryAttemptsOpt =
     \<lparr> OrderManager.config =
         \<lparr> retryAttempts = or_default retryAttemptsOpt 3, retryDelay = 1000,
           orderTimeout = 30000 \<rparr>,
       activeOrders = [], orderHistory = [] \<rparr>"

section \<open>Vocabulary of the claims and inputs of the examples\<close>

text \<open>
  A response of the venue that \<open>placeOrder\<close> treats as a failed submission: the call
  throws, or the answer carries no order id (a missing or empty one is falsy).
\<close>

definition venue_fails :: "kite_response \<Rightarrow> bool" where
  "venue_fails r = (case r of Rejects msg \<Rightarrow> True | Responds None \<Rightarrow> True
                     | Responds (Some oid) \<Rightarrow> oid = [])"

text \<open>
  The position size as the specification words it, with the unit price as an argument,
  for comparison with \<open>calculatePositionSize\<close>.
\<close>

definition spec_positionSize :: "real \<Rightarrow> real \<Rightarrow> real \<Rightarrow> real \<Rightarrow> real" where
  "spec_positionSize capital sizePercent unitPrice sizeMultiplier =
     real_of_int \<lfloor>(capital * sizePercent / 100) / unitPrice\<rfloor> * sizeMultiplier"

text \<open>A quote with last price \<open>l\<close> and session open \<open>opn\<close>.\<close>

definition quote :: "real \<Rightarrow> real \<Rightarrow> market_data" where
  "quote l opn = \<lparr> open_price = opn, high = l, low = opn, close = l, volume = 0, ltp = l \<rparr>"

text \<open>A venue that accepts every order, and one that is unreachable.\<close>

definition venue_accepts :: "nat \<Rightarrow> order_params \<Rightarrow> kite_response" where
  "venue_accepts n ps = Responds (Some ''ORD1'')"

definition venue_down :: "nat \<Rightarrow> order_params \<Rightarrow> kite_response" where
  "venue_down n ps = Rejects ''Network error''"

definition example_order :: order_params where
  "example_order =
     \<lparr> symbol = ''NIFTY'', order_params.exchange = ''NSE'', transaction_type = ''BUY'',
       order_params.quantity = Num 20, order_type = ''MARKET'', product_code = ''MIS'',
       validity = ''DAY'', price = None, trigger_price = None \<rparr>"

text \<open>
  A run of the default strategy against the accepting venue and the default risk
  manager. Day one, 10:00:00.000 (36000000 ms): price 100 above the open 99, a position
  is entered. Day one, 10:30 (37800000 ms): price 101 is above the target 100.75, the
  position is closed with \<open>TARGET_HIT\<close>. Day two, 10:00 (122400000 ms): price 200 above
  the open 199, the next position is entered.
\<close>

definition after_first_entry :: "strategy_state \<times> OrderManager" where
  "after_first_entry =
     snd (execute default_config venue_accepts (RiskManager_new default_options)
            36000000 (quote 100 99) (initial_state, OrderManager_new None))"

definition after_target_hit :: "strategy_state \<times> OrderManager" where
  "after_target_hit =
     snd (execute default_config venue_accepts (RiskManager_new default_options)
            37800000 (quote 101 99) after_first_entry)"

definition entry_after_target_hit :: "action \<times> strategy_state \<times> OrderManager" where
  "entry_after_target_hit =
     execute default_config venue_accepts (RiskManager_new default_options)
       (86400000 + 36000000) (quote 200 199) after_target_hit"

definition example_active_order :: active_order where
  "example_active_order =
     \<lparr> active_order.orderId = ''ORD1'',
       params = \<lparr> symbol = ''NIFTY'', order_params.exchange = ''NSE'',
                  transaction_type = ''BUY'', order_params.quantity = Num 20,
                  order_type = ''MARKET'', product_code = ''MIS'', validity = ''DAY'',
                  price = None, trigger_price = None \<rparr>,
       status = ''PENDING'', placedAt = 36000000, active_order.attempts = 1 \<rparr>"

definition example_trade :: trade where
  "example_trade =
     \<lparr> orderId = Some ''ORD1'', entryPrice = 100, quantity = Num 20, direction = ''BUY'',
       targetPrice = 100.75, stopLossPrice = 99.65, entryTime = 36000000,
       isFollowUp = False, exitTime = 37800000, exitReason = ''TARGET_HIT'', pnl = - 7 \<rparr>"

definition example_second_position :: position where
  "example_second_position =
     \<lparr> orderId = Some ''ORD1'', entryPrice = 200, quantity = Num 10,
       direction = ''BUY'', targetPrice = 201.5, stopLossPrice = 199.3,
       entryTime = 122400000, isFollowUp = False \<rparr>"

text \<open>
  Sixty consecutive minute candles, rising by one each minute, and a candle store that
  holds exactly these.
\<close>

definition minute_candle :: "nat \<Rightarrow> candle" where
  "minute_candle i =
     \<lparr> open_price = 100 + real i, high = 101 + real i, low = 99 + real i,
       close = 100.5 + real i, volume = 10, timestamp = 60000 * i \<rparr>"

definition sixty_candles :: "candle list" where
  "sixty_candles = map minute_candle [0..<60]"

definition sixty_store :: "string \<Rightarrow> symbol_candles option" where
  "sixty_store = Map.empty (''NSE:NIFTY 50'' \<mapsto> map (\<lambda>c. (timestamp c, c)) sixty_candles)"

text \<open>
  A venue whose historical-data call answers with 1001 minute candles of distinct
  dates, a service that knows one instrument, and an empty candle store.
\<close>

definition historical_minute :: "nat \<Rightarrow> historical" where
  "historical_minute i =
     \<lparr> open_price = 100, high = 101, low = 99, close = 100, volume = 10, date = 60000 * i \<rparr>"

definition venue_history :: "nat \<Rightarrow> string + historical list" where
  "venue_history tok = Inr (map historical_minute [0..<1001])"

definition one_instrument :: "(string \<times> instrument_data) list" where
  "one_instrument = [(''NSE:NIFTY 50'', \<lparr> token = 256265 \<rparr>)]"

definition no_candles :: candle_data where
  "no_candles = Map.empty"

text \<open>
  The risk manager after a day that ended at +5000: its starting capital is 105000. The
  strategy's own configuration is a separate object and keeps its capital.
\<close>

definition rolled_over_manager :: RiskManager where
  "rolled_over_manager =
     resetDailyStats (updateDailyStats (RiskManager_new default_options) 5000)"

text \<open>
  Configurations that differ from the default in one number: the capital; the position
  size percentage, written 2.3, and given as the double nearest to 2.9; the follow-up
  size reduction, 0.25 and 0.
\<close>

definition capital_105000 :: strategy_config where
  "capital_105000 = default_config \<lparr> strategy_config.initialCapital := 105000 \<rparr>"

definition percent_2_3 :: strategy_config where
  "percent_2_3 = default_config \<lparr> positionSizePercent := 2.3 \<rparr>"

definition percent_2_9_double :: strategy_config where
  "percent_2_9_double =
     default_config \<lparr> positionSizePercent := 6530219459687219 / 2251799813685248 \<rparr>"

definition reduction_quarter :: strategy_config where
  "reduction_quarter = default_config \<lparr> followUpSizeReduction := 0.25 \<rparr>"

definition reduction_zero :: strategy_config where
  "reduction_zero = default_config \<lparr> followUpSizeReduction := 0 \<rparr>"

text \<open>
  The first call of a fresh strategy at 10:00:00.000 with the price \<open>prc\<close> above the open;
  and the call of day two at 10:00 at the price 100, after an entry at 100 on day one and
  a profit-target exit at 101. \<open>entered_quantity\<close> reads the quantity of the position out
  of a \<open>POSITION_ENTERED\<close> answer.
\<close>

definition fresh_entry ::
  "strategy_config \<Rightarrow> RiskManager \<Rightarrow> real \<Rightarrow> action \<times> strategy_state \<times> OrderManager" where
  "fresh_entry cfg rm prc =
     execute cfg venue_accepts rm 36000000 (quote prc (prc - 1))
       (initial_state, OrderManager_new None)"

definition entry_after_profit :: "strategy_config \<Rightarrow> action \<times> strategy_state \<times> OrderManager" where
  "entry_after_profit cfg =
     execute cfg venue_accepts (RiskManager_new default_options) (86400000 + 36000000)
       (quote 100 99)
       (snd (execute cfg venue_accepts (RiskManager_new default_options) 37800000
               (quote 101 99)
               (snd (fresh_entry cfg (RiskManager_new default_options) 100))))"

definition entered_quantity :: "action \<times> strategy_state \<times> OrderManager \<Rightarrow> jsnum option" where
  "entered_quantity r =
     (case fst r of POSITION_ENTERED p why \<Rightarrow> Some (quantity p) | _ \<Rightarrow> None)"

section \<open>Properties of the double arithmetic\<close>

lemma powi_powr: "(2::real) powi e = 2 powr real_of_int e"
  by (simp add: powr_real_of_int')

text \<open>The exponent is the one that brackets the number.\<close>

lemma expo_eq:
  assumes "2 powi e \<le> \<bar>x\<bar>" and "\<bar>x\<bar> < 2 powi (e + 1)"
  shows "expo x = e"
proof -
  have pos: "0 < \<bar>x\<bar>" using assms(1) by (smt (verit) zero_less_power_int)
  have lo: "real_of_int e \<le> log 2 \<bar>x\<bar>"
    using assms(1) pos by (simp add: le_log_iff powi_powr)
  have "log 2 \<bar>x\<bar> < real_of_int (e + 1)"
    using assms(2) pos unfolding powi_powr by (simp add: log_less_iff)
  then have hi: "log 2 \<bar>x\<bar> < real_of_int e + 1" by simp
  from lo hi show ?thesis unfolding expo_def by (simp add: floor_unique)
qed

lemma expo_double: "x \<noteq> 0 \<Longrightarrow> expo (2 * x) = expo x + 1"
proof -
  assume "x \<noteq> 0"
  then have "log 2 \<bar>2 * x\<bar> = log 2 \<bar>x\<bar> + 1"
    by (simp add: abs_mult log_mult)
  then show ?thesis by (simp add: expo_def)
qed

text \<open>
  Three rewrite rules that compute the exponent of a given rational number: halve it
  while it is 2 or more, double it while it is below 1.
\<close>

lemma expo_step_down: "2 \<le> \<bar>x\<bar> \<Longrightarrow> expo x = expo (x / 2) + 1"
  using expo_double [of "x / 2"] by auto

lemma expo_step_up: "x \<noteq> 0 \<Longrightarrow> \<bar>x\<bar> < 1 \<Longrightarrow> expo x = expo (2 * x) - 1"
  using expo_double [of x] by simp

lemma expo_unit: "1 \<le> \<bar>x\<bar> \<Longrightarrow> \<bar>x\<bar> < 2 \<Longrightarrow> expo x = 0"
  by (rule expo_eq) simp_all

lemma round_half_even_int: "round_half_even (real_of_int k) = k"
  by (simp add: round_half_even_def)

lemma rd_eval:
  assumes "2 powi e \<le> \<bar>x\<bar>" and "\<bar>x\<bar> < 2 powi (e + 1)" and "- 1022 \<le> e"
  shows "rd x = real_of_int (round_half_even (x / 2 powi (e - 52))) * 2 powi (e - 52)"
proof -
  have "x \<noteq> 0" using assms(1) by (smt (verit) zero_less_power_int)
  moreover have "max (expo x) (- 1022) = e" using expo_eq [OF assms(1,2)] assms(3) by simp
  ultimately show ?thesis by (simp add: rd_def Let_def)
qed

text \<open>
  A number with at most 53 significant bits and an exponent in range is a double:
  rounding leaves it as it is.
\<close>

lemma rd_exact:
  assumes "x = real_of_int k * 2 powi j" and "\<bar>k\<bar> < 2 ^ 53" and "- 1074 \<le> j"
  shows "rd x = x"
proof (cases "x = 0")
  case True
  then show ?thesis by (simp add: rd_def)
next
  case False
  define e where "e = max (expo x) (- 1022)"
  have je: "e - 52 \<le> j \<or> e = - 1022"
  proof (rule ccontr)
    assume "\<not> (e - 52 \<le> j \<or> e = - 1022)"
    then have lt: "j + 53 \<le> e" and ee: "e = expo x" by (auto simp: e_def)
    have "log 2 \<bar>x\<bar> < real_of_int (j + 53)"
    proof -
      have "\<bar>x\<bar> = real_of_int \<bar>k\<bar> * 2 powi j" by (simp add: assms(1) abs_mult)
      also have "\<dots> < 2 ^ 53 * 2 powi j"
        using assms(2)
        by (intro mult_strict_right_mono)
           (simp_all flip: of_int_less_iff add: zero_less_power_int)
      also have "\<dots> = 2 powi (j + 53)" by (simp add: power_int_add)
      finally have "\<bar>x\<bar> < 2 powr real_of_int (j + 53)" by (simp only: powi_powr)
      then show ?thesis using False by (simp add: log_less_iff)
    qed
    then have "expo x < j + 53" unfolding expo_def by (simp add: floor_less_iff)
    with lt ee show False by simp
  qed
  then have "e - 52 \<le> j" using assms(3) by auto
  then obtain n where n: "j = (e - 52) + int n" by (metis zle_iff_zadd)
  have "x / 2 powi (e - 52) = real_of_int k * 2 ^ n"
    by (simp add: assms(1) n power_int_add)
  also have "\<dots> = real_of_int (k * 2 ^ n)" by simp
  finally have q: "x / 2 powi (e - 52) = real_of_int (k * 2 ^ n)" .
  have "rd x = real_of_int (round_half_even (x / 2 powi (e - 52))) * 2 powi (e - 52)"
    using False by (simp add: rd_def Let_def e_def)
  also have "\<dots> = real_of_int (k * 2 ^ n) * 2 powi (e - 52)"
    unfolding q round_half_even_int ..
  also have "\<dots> = x" by (simp add: assms(1) n power_int_add)
  finally show ?thesis .
qed

lemma rd_of_int: "\<bar>k\<bar> < 2 ^ 53 \<Longrightarrow> rd (real_of_int k) = real_of_int k"
  using rd_exact [of "real_of_int k" k 0] by simp

text \<open>
  The definitions and rules that evaluating the double arithmetic, and a call of
  \<open>execute\<close>, on concrete input unfolds.
\<close>

lemmas double_eval =
  to_double_def rd_def round_half_even_def expo_step_down expo_step_up expo_unit
  js_div_100_def js_floor_def js_truthy_def js_le_zero_def js_real_def Let_def

lemmas eval_defs =
  execute_def isMarketHours_def parseTime_def startOfDay_def getHours_def getMinutes_def
  isCandleComplete_def getNextCandleEndTime_def lookForEntry_def generateEntrySignal_def
  enterPosition_def calculatePositionSize_def manageExistingPosition_def
  handleTargetHit_def handleStopLossHit_def recordTrade_def calculatePnL_def
  position_exitReason_def placeOrder.simps submitOrder_def validateOrderParams_def
  checkDailyLimits_def lossPercentage_exceeds_def RiskManager_new_def or_default_def
  OrderManager_new_def default_config_def default_options_def initial_state_def
  quote_def venue_accepts_def double_eval

text \<open>
  The model against doubles whose value is known: the doubles nearest to 2.3, to 0.1 and
  to 2.9; a product that rounds up to an integer; a tie, which goes to the even
  neighbour; and the smallest number that overflows.
\<close>

lemma to_double_known_values:
  "to_double (23 / 10) = Num (2589569785738035 / 1125899906842624)"
  "to_double (1 / 10) = Num (3602879701896397 / 36028797018963968)"
  "to_double (29 / 10) = Num (6530219459687219 / 2251799813685248)"
  "to_double (100000 * (6530219459687219 / 2251799813685248)) = Num 290000"
  by (simp_all add: double_eval)

lemma rd_tie_to_even: "rd (2 ^ 53 + 1) = 2 ^ 53" "rd (2 ^ 53 + 3) = 2 ^ 53 + 4"
  by (subst rd_eval [where e = 53]; simp add: round_half_even_def Let_def)+

lemma to_double_overflow: "to_double (2 ^ 1024 - 2 ^ 970) = PosInfinity"
  unfolding to_double_def Let_def
  by (subst rd_eval [where e = 1023]) (simp_all add: round_half_even_def Let_def)

section \<open>Properties of the risk manager\<close>

text \<open>
  C9. Recording a trade whose profit-and-loss is exactly zero resets the consecutive-loss
  streak to 0 (the trade counts as a win), adds one to the daily trade count and leaves
  the cumulative profit-and-loss as it was.
\<close>

theorem updateDailyStats_zero_pnl:
  "consecutiveLosses (dailyStats (updateDailyStats rm 0)) = 0 \<and>
   tradesCount (dailyStats (updateDailyStats rm 0)) = tradesCount (dailyStats rm) + 1 \<and>
   totalPnL (dailyStats (updateDailyStats rm 0)) = totalPnL (dailyStats rm)"
  by (simp add: updateDailyStats_def Let_def)


text \<open>
  C1. The pre-trade check tests its four blocking conditions in a fixed order: daily loss
  limit, emergency stop limit, trades per day, consecutive losses. The first one that
  holds gives \<open>canTrade = false\<close> with that condition's reason and an empty warning list
  (nothing after it is evaluated); when none holds the result has \<open>canTrade = true\<close>.
\<close>

theorem checkDailyLimits_order:
  "(\<bar>currentPnL\<bar> \<ge> dailyLossLimit (riskLimits rm) \<longrightarrow>
      checkDailyLimits rm currentPnL n =
        \<lparr> canTrade = False, reason = DailyLossLimitReached \<bar>currentPnL\<bar>, warnings = [] \<rparr>) \<and>
   (\<not> \<bar>currentPnL\<bar> \<ge> dailyLossLimit (riskLimits rm) \<and>
    \<bar>currentPnL\<bar> \<ge> emergencyStopLimit (riskLimits rm) \<longrightarrow>
      checkDailyLimits rm currentPnL n =
        \<lparr> canTrade = False, reason = EmergencyStopLossTriggered \<bar>currentPnL\<bar>, warnings = [] \<rparr>) \<and>
   (\<not> \<bar>currentPnL\<bar> \<ge> dailyLossLimit (riskLimits rm) \<and>
    \<not> \<bar>currentPnL\<bar> \<ge> emergencyStopLimit (riskLimits rm) \<and>
    n \<ge> maxTradesPerDay (config rm) \<longrightarrow>
      checkDailyLimits rm currentPnL n =
        \<lparr> canTrade = False, reason = MaxTradesPerDayReached n, warnings = [] \<rparr>) \<and>
   (\<not> \<bar>currentPnL\<bar> \<ge> dailyLossLimit (riskLimits rm) \<and>
    \<not> \<bar>currentPnL\<bar> \<ge> emergencyStopLimit (riskLimits rm) \<and>
    \<not> n \<ge> maxTradesPerDay (config rm) \<and>
    consecutiveLosses (dailyStats rm) \<ge> maxConsecutiveLosses (config rm) \<longrightarrow>
      checkDailyLimits rm currentPnL n =
        \<lparr> canTrade = False,
          reason = MaxConsecutiveLossesReached (consecutiveLosses (dailyStats rm)),
          warnings = [] \<rparr>) \<and>
   (\<not> \<bar>currentPnL\<bar> \<ge> dailyLossLimit (riskLimits rm) \<and>
    \<not> \<bar>currentPnL\<bar> \<ge> emergencyStopLimit (riskLimits rm) \<and>
    \<not> n \<ge> maxTradesPerDay (config rm) \<and>
    \<not> consecutiveLosses (dailyStats rm) \<ge> maxConsecutiveLosses (config rm) \<longrightarrow>
      canTrade (checkDailyLimits rm currentPnL n) \<and> reason (checkDailyLimits rm currentPnL n) = NoReason)"
  by (simp add: checkDailyLimits_def Let_def)

text \<open>
  One input for each of the five cases. The emergency-stop case needs a manager whose
  daily limit (5 per cent) lies above its emergency limit (2 per cent); the
  consecutive-loss case a manager that has recorded three losses of 100.
\<close>

theorem checkDailyLimits_order_witness:
  "checkDailyLimits (RiskManager_new default_options) 2500 0 =
     \<lparr> canTrade = False, reason = DailyLossLimitReached 2500, warnings = [] \<rparr> \<and>
   checkDailyLimits
     (RiskManager_new (default_options \<lparr> opt_maxDailyLossPercent := Some 5,
                                         opt_emergencyStopLossPercent := Some 2 \<rparr>)) (- 3000) 0 =
     \<lparr> canTrade = False, reason = EmergencyStopLossTriggered 3000, warnings = [] \<rparr> \<and>
   checkDailyLimits (RiskManager_new default_options) 0 5 =
     \<lparr> canTrade = False, reason = MaxTradesPerDayReached 5, warnings = [] \<rparr> \<and>
   checkDailyLimits
     (updateDailyStats (updateDailyStats (updateDailyStats
        (RiskManager_new default_options) (- 100)) (- 100)) (- 100)) (- 300) 3 =
     \<lparr> canTrade = False, reason = MaxConsecutiveLossesReached 3, warnings = [] \<rparr> \<and>
   canTrade (checkDailyLimits (RiskManager_new default_options) 0 0) \<and>
   reason (checkDailyLimits (RiskManager_new default_options) 0 0) = NoReason"
  using checkDailyLimits_order [where rm = "RiskManager_new default_options"
          and currentPnL = 2500 and n = 0]
        checkDailyLimits_order [where rm = "RiskManager_new (default_options
            \<lparr> opt_maxDailyLossPercent := Some 5, opt_emergencyStopLossPercent := Some 2 \<rparr>)"
          and currentPnL = "- 3000" and n = 0]
        checkDailyLimits_order [where rm = "RiskManager_new default_options"
          and currentPnL = 0 and n = 5]
        checkDailyLimits_order [where rm = "updateDailyStats (updateDailyStats
            (updateDailyStats (RiskManager_new default_options) (- 100)) (- 100)) (- 100)"
          and currentPnL = "- 300" and n = 3]
        checkDailyLimits_order [where rm = "RiskManager_new default_options"
          and currentPnL = 0 and n = 0]
  by (simp add: RiskManager_new_def default_options_def or_default_def updateDailyStats_def
        Let_def)

text \<open>
  C10. Whenever the daily loss limit is not above the emergency stop limit, no input
  makes the pre-trade check answer with the emergency-stop reason: a profit-and-loss
  whose magnitude reaches the emergency limit has already reached the daily limit, and
  that check comes first.
\<close>

theorem emergency_stop_branch_unreachable:
  "dailyLossLimit (riskLimits rm) \<le> emergencyStopLimit (riskLimits rm) \<Longrightarrow>
   reason (checkDailyLimits rm currentPnL n) \<noteq> EmergencyStopLossTriggered a"
  by (simp add: checkDailyLimits_def Let_def)

text \<open>
  The default manager (limits 2000 and 5000) satisfies the hypothesis; at a loss of 6000,
  beyond both limits, the reason given is the daily loss limit.
\<close>

theorem emergency_stop_branch_unreachable_witness:
  "dailyLossLimit (riskLimits (RiskManager_new default_options)) = 2000 \<and>
   emergencyStopLimit (riskLimits (RiskManager_new default_options)) = 5000 \<and>
   reason (checkDailyLimits (RiskManager_new default_options) (- 6000) 0)
     \<noteq> EmergencyStopLossTriggered 6000"
proof -
  have limits:
    "dailyLossLimit (riskLimits (RiskManager_new default_options)) = 2000"
    "emergencyStopLimit (riskLimits (RiskManager_new default_options)) = 5000"
    by (simp_all add: RiskManager_new_def default_options_def or_default_def Let_def)
  then have "dailyLossLimit (riskLimits (RiskManager_new default_options))
      \<le> emergencyStopLimit (riskLimits (RiskManager_new default_options))"
    by simp
  from emergency_stop_branch_unreachable [OF this, of "- 6000" 0 6000] limits
  show ?thesis by simp
qed


section \<open>Properties of the order manager\<close>

lemma submitOrder_fails:
  "venue_fails (kite n ps) \<Longrightarrow> \<exists>e. submitOrder kite ps n = Inl e"
  by (auto simp: submitOrder_def venue_fails_def Let_def split: kite_response.splits option.splits)

lemma placeOrder_exhausts_retries:
  assumes "\<And>n. venue_fails (kite n ps)"
  shows "retryCount \<le> retryAttempts (OrderManager.config om) \<Longrightarrow>
         \<exists>e. placeOrder kite now om ps retryCount =
           (\<lparr> success = False, order_id = None, message = None, error = Some e,
              attempts = Some (retryAttempts (OrderManager.config om) + 1) \<rparr>, om)"
proof (induction "retryAttempts (OrderManager.config om) - retryCount" arbitrary: retryCount)
  case 0
  then have eq: "retryCount = retryAttempts (OrderManager.config om)" by simp
  from submitOrder_fails [of kite retryCount ps] assms
  obtain e where "submitOrder kite ps retryCount = Inl e"
    by blast
  then show ?case using eq by (subst placeOrder.simps) simp
next
  case (Suc k)
  then have lt: "retryCount < retryAttempts (OrderManager.config om)" by simp
  from submitOrder_fails [of kite retryCount ps] assms
  obtain e where e: "submitOrder kite ps retryCount = Inl e"
    by blast
  have "k = retryAttempts (OrderManager.config om) - (retryCount + 1)" using Suc.hyps(2) by simp
  moreover have "retryCount + 1 \<le> retryAttempts (OrderManager.config om)" using lt by simp
  ultimately obtain e' where
    "placeOrder kite now om ps (retryCount + 1) =
       (\<lparr> success = False, order_id = None, message = None, error = Some e',
          attempts = Some (retryAttempts (OrderManager.config om) + 1) \<rparr>, om)"
    using Suc.hyps(1) by blast
  then show ?case using e lt by (subst placeOrder.simps) simp
qed

text \<open>
  C4, as the code has it. When every submission fails, \<open>placeOrder\<close> gives up after the
  first submission and \<open>retryAttempts\<close> retries: the result has \<open>success = false\<close> and
  \<open>attempts = retryAttempts + 1\<close> (4 for the 3 configured retry attempts), and
  \<open>enterPosition\<close> leaves the strategy's state as it was, so no position is created.
\<close>

theorem placeOrder_failure_attempts:
  assumes "\<And>n ps. venue_fails (kite n ps)"
  shows "success (fst (placeOrder kite now om ps 0)) = False \<and>
         attempts (fst (placeOrder kite now om ps 0)) =
           Some (retryAttempts (OrderManager.config om) + 1) \<and>
         enterPosition cfg kite now sig (st, om) = (UNDEFINED, st, om)"
proof -
  have fails: "\<exists>e. placeOrder kite now om ps' 0 =
           (\<lparr> success = False, order_id = None, message = None, error = Some e,
              attempts = Some (retryAttempts (OrderManager.config om) + 1) \<rparr>, om)" for ps'
    using placeOrder_exhausts_retries [of kite ps' 0 om now] assms by simp
  from fails [of ps] have a: "success (fst (placeOrder kite now om ps 0)) = False \<and>
         attempts (fst (placeOrder kite now om ps 0)) =
           Some (retryAttempts (OrderManager.config om) + 1)" by auto
  define ord where "ord = \<lparr> symbol = instrument cfg,
      order_params.exchange = exchange cfg, transaction_type = signal.direction sig,
      order_params.quantity = calculatePositionSize cfg st,
      order_type = ''MARKET'', product_code = ''MIS'', validity = ''DAY'',
      price = None, trigger_price = None \<rparr>"
  from fails [of ord] obtain e where
    "placeOrder kite now om ord 0 =
       (\<lparr> success = False, order_id = None, message = None, error = Some e,
          attempts = Some (retryAttempts (OrderManager.config om) + 1) \<rparr>, om)"
    by blast
  then have "enterPosition cfg kite now sig (st, om) = (UNDEFINED, st, om)"
    unfolding ord_def by (simp add: enterPosition_def Let_def)
  with a show ?thesis by simp
qed

text \<open>
  With 3 retry attempts and an unreachable venue the result carries \<open>attempts = 4\<close>, and
  the strategy, which had no position, has none afterwards.
\<close>

theorem placeOrder_failure_attempts_witness:
  "success (fst (placeOrder venue_down 0 (OrderManager_new (Some 3)) example_order 0)) = False \<and>
   attempts (fst (placeOrder venue_down 0 (OrderManager_new (Some 3)) example_order 0)) = Some 4 \<and>
   currentPosition (fst (snd (enterPosition default_config venue_down 0
       (generateEntrySignal (quote 250 240)) (initial_state, OrderManager_new (Some 3))))) = None"
  using placeOrder_failure_attempts [of venue_down 0 "OrderManager_new (Some 3)" example_order
      default_config "generateEntrySignal (quote 250 240)" initial_state]
  by (simp add: venue_down_def venue_fails_def OrderManager_new_def or_default_def initial_state_def)

text \<open>
  C4 as stated asks for \<open>attempts = 3\<close>. The same call shows that it is not: the check
  \<open>retryCount < retryAttempts\<close> still allows a retry at \<open>retryCount = 2\<close>, and the
  failure is reported from the call with \<open>retryCount = 3\<close> as \<open>retryCount + 1\<close>.
\<close>

theorem placeOrder_three_retries_counterexample:
  "attempts (fst (placeOrder venue_down 0 (OrderManager_new (Some 3)) example_order 0)) \<noteq> Some 3"
  by (simp add: placeOrder.simps submitOrder_def validateOrderParams_def example_order_def
        venue_down_def OrderManager_new_def or_default_def js_truthy_def js_le_zero_def
        Let_def)

section \<open>Properties of the strategy\<close>

subsection \<open>The example run\<close>

lemma after_first_entry_eq:
  "after_first_entry =
     (\<lparr> currentPosition = Some \<lparr> orderId = Some ''ORD1'', entryPrice = 100, quantity = Num 20,
          direction = ''BUY'', targetPrice = 100.75, stopLossPrice = 99.65,
          entryTime = 36000000, isFollowUp = False \<rparr>,
        dailyTrades = [], dailyPnL = 0, lastTradeTime = None, waitingForCandle = False,
        candleEndTime = None, nextPositionSizeMultiplier = None \<rparr>,
      \<lparr> OrderManager.config = \<lparr> retryAttempts = 3, retryDelay = 1000, orderTimeout = 30000 \<rparr>,
        activeOrders = [(''ORD1'', example_active_order)],
        orderHistory = [example_active_order] \<rparr>)"
  by (simp add: after_first_entry_def eval_defs example_active_order_def)

lemma after_target_hit_eq:
  "after_target_hit =
     (\<lparr> currentPosition = None, dailyTrades = [example_trade], dailyPnL = - 7,
        lastTradeTime = None, waitingForCandle = True, candleEndTime = Some 39600000,
        nextPositionSizeMultiplier = Some 0.5 \<rparr>,
      \<lparr> OrderManager.config = \<lparr> retryAttempts = 3, retryDelay = 1000, orderTimeout = 30000 \<rparr>,
        activeOrders = [(''ORD1'', example_active_order)],
        orderHistory = [example_active_order] \<rparr>)"
  by (simp add: after_target_hit_def after_first_entry_eq eval_defs example_trade_def)

lemma entry_after_target_hit_action:
  "fst entry_after_target_hit = POSITION_ENTERED example_second_position ''Price above opening''"
  by (simp add: entry_after_target_hit_def after_target_hit_eq eval_defs example_second_position_def)

subsection \<open>What an entry looks like\<close>

lemma manageExistingPosition_not_entered:
  "fst (manageExistingPosition cfg now md p st) \<noteq> POSITION_ENTERED q r"
  by (simp add: manageExistingPosition_def handleTargetHit_def handleStopLossHit_def Let_def)

lemma enterPosition_entered:
  assumes "enterPosition cfg kite now sig (st, om) = (POSITION_ENTERED p r, st', om')"
  shows "quantity p = calculatePositionSize cfg st"
    and "entryPrice p = signal.entryPrice sig"
    and "currentPosition st = None \<Longrightarrow>
           targetPrice p = entryPrice p * (1 + initialProfitTarget cfg / 100) \<and>
           stopLossPrice p = entryPrice p * (1 - initialStopLoss cfg / 100) \<and>
           \<not> isFollowUp p"
  using assms
  by (auto simp: enterPosition_def Let_def split: prod.splits if_splits)

text \<open>
  \<open>execute\<close> reaches \<open>enterPosition\<close> only through \<open>lookForEntry\<close>, and that only when
  there is no current position.
\<close>

lemma execute_entered:
  assumes "execute cfg kite rm now md (st, om) = (POSITION_ENTERED p r, st', om')"
  shows "currentPosition st = None \<and>
         (\<exists>st1 sig. nextPositionSizeMultiplier st1 = nextPositionSizeMultiplier st \<and>
            currentPosition st1 = None \<and>
            enterPosition cfg kite now sig (st1, om) = (POSITION_ENTERED p r, st', om'))"
proof -
  define st1 where "st1 = (if waitingForCandle st then st \<lparr> waitingForCandle := False \<rparr> else st)"
  have m: "nextPositionSizeMultiplier st1 = nextPositionSizeMultiplier st"
    and c: "currentPosition st1 = currentPosition st"
    by (simp_all add: st1_def)
  from assms have run:
    "(case currentPosition st1 of
        Some q \<Rightarrow> (case manageExistingPosition cfg now md q st1 of (a, st2) \<Rightarrow> (a, st2, om))
      | None \<Rightarrow> lookForEntry cfg kite now md (st1, om)) = (POSITION_ENTERED p r, st', om')"
    unfolding execute_def Let_def st1_def by (simp split: if_splits)
  show ?thesis
  proof (cases "currentPosition st1")
    case (Some q)
    with run manageExistingPosition_not_entered [of cfg now md q st1 p r]
    show ?thesis by (auto split: prod.splits)
  next
    case None
    with run have "lookForEntry cfg kite now md (st1, om) = (POSITION_ENTERED p r, st', om')"
      by simp
    then have "enterPosition cfg kite now (generateEntrySignal md) (st1, om)
                 = (POSITION_ENTERED p r, st', om')"
      by (simp add: lookForEntry_def Let_def split: if_splits)
    with None m c show ?thesis by auto
  qed
qed

text \<open>
  So every position that \<open>execute\<close> enters has the initial target and stop percentages
  and \<open>isFollowUp = false\<close>: the follow-up branch of \<open>enterPosition\<close> tests
  \<open>this.state.currentPosition\<close>, which is \<open>null\<close> whenever the function is called.
\<close>

lemma entered_position_uses_initial_percentages:
  assumes "execute cfg kite rm now md (st, om) = (POSITION_ENTERED p r, st', om')"
  shows "targetPrice p = entryPrice p * (1 + initialProfitTarget cfg / 100) \<and>
         stopLossPrice p = entryPrice p * (1 - initialStopLoss cfg / 100) \<and>
         \<not> isFollowUp p"
  using execute_entered [OF assms] enterPosition_entered(3) by blast

text \<open>
  What one call of \<open>execute\<close> does to the multiplier: a profit-target exit stores
  \<open>followUpSizeReduction\<close>, a stop-loss exit stores 1, and every other call, the entry
  included, leaves it as it is. So the multiplier of an entry is the one that the last
  exit before it has stored.
\<close>

lemma enterPosition_multiplier:
  "nextPositionSizeMultiplier (fst (snd (enterPosition cfg kite now sig (st, om))))
     = nextPositionSizeMultiplier st \<and>
   (\<forall>exited t. fst (enterPosition cfg kite now sig (st, om)) \<noteq> TARGET_HIT exited t \<and>
                fst (enterPosition cfg kite now sig (st, om)) \<noteq> STOP_LOSS_HIT exited t)"
  by (simp add: enterPosition_def Let_def split: prod.splits)

lemma lookForEntry_multiplier:
  "nextPositionSizeMultiplier (fst (snd (lookForEntry cfg kite now md (st, om))))
     = (case fst (lookForEntry cfg kite now md (st, om)) of
          TARGET_HIT exited wakeup \<Rightarrow> Some (followUpSizeReduction cfg)
        | STOP_LOSS_HIT exited wakeup \<Rightarrow> Some 1
        | _ \<Rightarrow> nextPositionSizeMultiplier st)"
  using enterPosition_multiplier [of cfg kite now "generateEntrySignal md" st om]
  by (auto simp: lookForEntry_def Let_def split: action.splits)

lemma manageExistingPosition_multiplier:
  "nextPositionSizeMultiplier (snd (manageExistingPosition cfg now md p st))
     = (case fst (manageExistingPosition cfg now md p st) of
          TARGET_HIT exited wakeup \<Rightarrow> Some (followUpSizeReduction cfg)
        | STOP_LOSS_HIT exited wakeup \<Rightarrow> Some 1
        | _ \<Rightarrow> nextPositionSizeMultiplier st)"
  by (simp add: manageExistingPosition_def handleTargetHit_def handleStopLossHit_def
        recordTrade_def Let_def)

lemma execute_multiplier:
  "nextPositionSizeMultiplier (fst (snd (execute cfg kite rm now md (st, om)))) =
     (case fst (execute cfg kite rm now md (st, om)) of
        TARGET_HIT exited wakeup \<Rightarrow> Some (followUpSizeReduction cfg)
      | STOP_LOSS_HIT exited wakeup \<Rightarrow> Some 1
      | _ \<Rightarrow> nextPositionSizeMultiplier st)"
proof -
  define st1 where
    "st1 = (if waitingForCandle st then st \<lparr> waitingForCandle := False \<rparr> else st)"
  have m: "nextPositionSizeMultiplier st1 = nextPositionSizeMultiplier st"
    by (simp add: st1_def)
  let ?rest = "case currentPosition st1 of
            Some p \<Rightarrow> (case manageExistingPosition cfg now md p st1 of
                         (a, st2) \<Rightarrow> (a, st2, om))
          | None \<Rightarrow> lookForEntry cfg kite now md (st1, om)"
  have rest: "nextPositionSizeMultiplier (fst (snd ?rest)) =
     (case fst ?rest of
        TARGET_HIT exited wakeup \<Rightarrow> Some (followUpSizeReduction cfg)
      | STOP_LOSS_HIT exited wakeup \<Rightarrow> Some 1
      | _ \<Rightarrow> nextPositionSizeMultiplier st)"
  proof (cases "currentPosition st1")
    case None
    with lookForEntry_multiplier [of cfg kite now md st1 om] m show ?thesis
      by (simp split: action.splits)
  next
    case (Some p)
    obtain a st2 where r: "manageExistingPosition cfg now md p st1 = (a, st2)"
      by (cases "manageExistingPosition cfg now md p st1")
    with manageExistingPosition_multiplier [of cfg now md p st1] m Some show ?thesis
      by (simp split: action.splits)
  qed
  show ?thesis
  proof (cases "isMarketHours cfg now \<and>
                canTrade (checkDailyLimits rm (dailyPnL st) (length (dailyTrades st))) \<and>
                \<not> (waitingForCandle st \<and> \<not> isCandleComplete st now)")
    case True
    then have "execute cfg kite rm now md (st, om) = ?rest"
      unfolding execute_def Let_def st1_def by simp
    with rest show ?thesis by simp
  next
    case False
    then show ?thesis by (auto simp: execute_def Let_def)
  qed
qed

text \<open>
  The size of a position for the three states of the multiplier that the default
  configuration meets, and for the other configurations of the examples.
\<close>

lemma default_sizes:
  "nextPositionSizeMultiplier st = None \<Longrightarrow> calculatePositionSize default_config st = Num 20"
  "nextPositionSizeMultiplier st = Some 1 \<Longrightarrow> calculatePositionSize default_config st = Num 20"
  "nextPositionSizeMultiplier st = Some 0.5 \<Longrightarrow> calculatePositionSize default_config st = Num 10"
  by (simp_all add: calculatePositionSize_def default_config_def double_eval)

text \<open>
  C2, as the code has it. The quantity of every position that \<open>execute\<close> enters is
  \<open>Math.floor(Math.floor(initialCapital * positionSizePercent / 100 / 100) * m)\<close> in the
  code's own double arithmetic: every product and quotient is rounded to the nearest
  double. The capital is the strategy's configured \<open>initialCapital\<close>, the divisor is the
  constant 100 whatever the instrument's price, and the floor is taken again after the
  multiplier. The multiplier \<open>m\<close> is \<open>nextPositionSizeMultiplier || 1\<close>: 1 while the key is
  unset (a fresh strategy) or holds 0, and the stored value otherwise. A call of
  \<open>execute\<close> stores \<open>followUpSizeReduction\<close> when it answers \<open>TARGET_HIT\<close> and 1 when it
  answers \<open>STOP_LOSS_HIT\<close>, and leaves the key alone otherwise. With capital 100000 and
  2 per cent the size is 20 on a fresh entry and 10 after a profit-target exit with the
  default reduction 0.5.
\<close>

theorem entry_quantity:
  assumes "execute cfg kite rm now md (st, om) = (POSITION_ENTERED p r, st', om')"
  shows "quantity p =
           js_floor
             (js_mul
               (js_floor
                 (js_div_100
                   (js_div_100
                     (js_mul (to_double (strategy_config.initialCapital cfg))
                             (to_double (positionSizePercent cfg))))))
               (case nextPositionSizeMultiplier st of
                  None \<Rightarrow> Num 1
                | Some m \<Rightarrow> if js_truthy (to_double m) then to_double m else Num 1)) \<and>
         nextPositionSizeMultiplier initial_state = None \<and>
         nextPositionSizeMultiplier (fst (snd (execute cfg kite1 rm1 now1 md1 (st1, om1)))) =
           (case fst (execute cfg kite1 rm1 now1 md1 (st1, om1)) of
              TARGET_HIT exited wakeup \<Rightarrow> Some (followUpSizeReduction cfg)
            | STOP_LOSS_HIT exited wakeup \<Rightarrow> Some 1
            | _ \<Rightarrow> nextPositionSizeMultiplier st1) \<and>
         calculatePositionSize default_config initial_state = Num 20 \<and>
         calculatePositionSize default_config (fst after_target_hit) = Num 10"
proof -
  from execute_entered [OF assms] obtain st2 sig where
    "nextPositionSizeMultiplier st2 = nextPositionSizeMultiplier st"
    "enterPosition cfg kite now sig (st2, om) = (POSITION_ENTERED p r, st', om')"
    by blast
  with enterPosition_entered(1) have "quantity p =
           js_floor
             (js_mul
               (js_floor
                 (js_div_100
                   (js_div_100
                     (js_mul (to_double (strategy_config.initialCapital cfg))
                             (to_double (positionSizePercent cfg))))))
               (case nextPositionSizeMultiplier st of
                  None \<Rightarrow> Num 1
                | Some m \<Rightarrow> if js_truthy (to_double m) then to_double m else Num 1))"
    by (fastforce simp: calculatePositionSize_def Let_def)
  moreover have "calculatePositionSize default_config (fst after_target_hit) = Num 10"
    by (rule default_sizes(3)) (simp add: after_target_hit_eq)
  moreover have "calculatePositionSize default_config initial_state = Num 20"
    by (rule default_sizes(1)) (simp add: initial_state_def)
  ultimately show ?thesis
    using execute_multiplier [of cfg kite1 rm1 now1 md1 st1 om1]
    by (simp add: initial_state_def)
qed

text \<open>
  The entry of day two, after the profit-target exit of day one: multiplier 0.5,
  quantity 10.
\<close>

theorem entry_quantity_witness:
  "fst entry_after_target_hit = POSITION_ENTERED example_second_position ''Price above opening'' \<and>
   nextPositionSizeMultiplier (fst after_target_hit) = Some 0.5 \<and>
   quantity example_second_position =
     js_floor (js_mul (js_floor (js_div_100 (js_div_100
       (js_mul (to_double 100000) (to_double 2))))) (to_double 0.5)) \<and>
   quantity example_second_position = Num 10"
proof -
  have run: "execute default_config venue_accepts (RiskManager_new default_options)
               (86400000 + 36000000) (quote 200 199) (fst after_target_hit, snd after_target_hit)
             = (POSITION_ENTERED example_second_position ''Price above opening'',
                fst (snd entry_after_target_hit), snd (snd entry_after_target_hit))"
    using entry_after_target_hit_action
    by (simp add: entry_after_target_hit_def prod_eq_iff)
  have m: "nextPositionSizeMultiplier (fst after_target_hit) = Some 0.5"
    by (simp add: after_target_hit_eq)
  have half: "js_truthy (to_double (1 / 2))" by (simp add: double_eval)
  from entry_quantity [OF run] m half entry_after_target_hit_action show ?thesis
    by (simp add: default_config_def example_second_position_def)
qed

text \<open>The runs that the counterexample of C2 reads.\<close>

lemma fresh_entry_default:
  "entered_quantity (fresh_entry default_config (RiskManager_new default_options) 200)
     = Some (Num 20)"
  by (simp add: entered_quantity_def fresh_entry_def eval_defs)

lemma fresh_entry_rolled_over:
  "startingCapital (dailyStats rolled_over_manager) = 105000"
  "entered_quantity (fresh_entry default_config rolled_over_manager 100) = Some (Num 20)"
  by (simp_all add: entered_quantity_def fresh_entry_def rolled_over_manager_def
        resetDailyStats_def updateDailyStats_def eval_defs)

lemma fresh_entry_percent_2_3:
  "entered_quantity (fresh_entry percent_2_3 (RiskManager_new default_options) 100)
     = Some (Num 22)"
  by (simp add: entered_quantity_def fresh_entry_def percent_2_3_def eval_defs)

lemma fresh_entry_percent_2_9_double:
  "to_double (positionSizePercent percent_2_9_double)
     = Num (positionSizePercent percent_2_9_double)"
  "entered_quantity (fresh_entry percent_2_9_double (RiskManager_new default_options) 100)
     = Some (Num 29)"
  by (simp_all add: entered_quantity_def fresh_entry_def percent_2_9_double_def eval_defs)

lemma entry_after_profit_capital_105000:
  "entered_quantity (entry_after_profit capital_105000) = Some (Num 10)"
  by (simp add: entered_quantity_def entry_after_profit_def fresh_entry_def
        capital_105000_def eval_defs)

lemma entry_after_profit_reduction_quarter:
  "entered_quantity (entry_after_profit reduction_quarter) = Some (Num 5)"
  by (simp add: entered_quantity_def entry_after_profit_def fresh_entry_def
        reduction_quarter_def eval_defs)

lemma entry_after_profit_reduction_zero:
  "entered_quantity (entry_after_profit reduction_zero) = Some (Num 20)"
  by (simp add: entered_quantity_def entry_after_profit_def fresh_entry_def
        reduction_zero_def eval_defs)

text \<open>
  C2 as stated, read as a formula on real numbers, against entries that the code
  makes. Each line pairs the quantity of the position entered with the value of the
  stated formula.
  \<^item> Unit price: a fresh default strategy entering at the price 200 buys 20, where the
    formula with the unit price 200 gives 10.
  \<^item> Capital: after a day that ended at +5000 the starting capital is 105000; the
    strategy still buys 20 at the price 100, where the formula gives 21.
  \<^item> Floor: with the capital 105000 the base size is 21; after a profit-target exit the
    strategy buys 10 at the price 100, where the formula gives 10.5.
  \<^item> Rounding: with the percentage written 2.3 the strategy buys 22 at the price 100,
    where the formula gives 23; with the percentage that is the double nearest to 2.9
    it buys 29, where the formula on that very number gives 28.
  \<^item> Multiplier: with \<open>followUpSizeReduction\<close> 0.25 the strategy buys 5 after a
    profit-target exit, where the formula with the multiplier 0.5 gives 10; with
    \<open>followUpSizeReduction\<close> 0 it buys 20, where the formula gives 10 with the
    multiplier 0.5 and 0 with the multiplier 0.
\<close>

theorem entry_quantity_counterexample:
  "entered_quantity (fresh_entry default_config (RiskManager_new default_options) 200)
     = Some (Num 20) \<and>
   spec_positionSize 100000 2 200 1 = 10 \<and>
   startingCapital (dailyStats rolled_over_manager) = 105000 \<and>
   entered_quantity (fresh_entry default_config rolled_over_manager 100) = Some (Num 20) \<and>
   spec_positionSize 105000 2 100 1 = 21 \<and>
   entered_quantity (entry_after_profit capital_105000) = Some (Num 10) \<and>
   spec_positionSize 105000 2 100 0.5 = 10.5 \<and>
   entered_quantity (fresh_entry percent_2_3 (RiskManager_new default_options) 100)
     = Some (Num 22) \<and>
   spec_positionSize 100000 2.3 100 1 = 23 \<and>
   to_double (positionSizePercent percent_2_9_double)
     = Num (positionSizePercent percent_2_9_double) \<and>
   entered_quantity (fresh_entry percent_2_9_double (RiskManager_new default_options) 100)
     = Some (Num 29) \<and>
   spec_positionSize 100000 (positionSizePercent percent_2_9_double) 100 1 = 28 \<and>
   entered_quantity (entry_after_profit reduction_quarter) = Some (Num 5) \<and>
   spec_positionSize 100000 2 100 0.5 = 10 \<and>
   entered_quantity (entry_after_profit reduction_zero) = Some (Num 20) \<and>
   spec_positionSize 100000 2 100 0 = 0"
  using fresh_entry_default fresh_entry_rolled_over fresh_entry_percent_2_3
    fresh_entry_percent_2_9_double entry_after_profit_capital_105000
    entry_after_profit_reduction_quarter entry_after_profit_reduction_zero
  by (simp add: spec_positionSize_def percent_2_9_double_def default_config_def)

text \<open>
  C3. After an exit with \<open>TARGET_HIT\<close> the next position should carry the follow-up
  percentages. In the example run it does not: the position entered on day two at the
  price 200 has the target \<open>200 * (1 + 0.75 / 100) = 201.5\<close> and the stop
  \<open>200 * (1 - 0.35 / 100) = 199.3\<close> of the initial percentages, not the follow-up
  target 200.7 and stop 199.7.
\<close>

theorem follow_up_percentages_not_applied:
  "map exitReason (dailyTrades (fst after_target_hit)) = [''TARGET_HIT''] \<and>
   fst entry_after_target_hit = POSITION_ENTERED example_second_position ''Price above opening'' \<and>
   targetPrice example_second_position
     = entryPrice example_second_position * (1 + initialProfitTarget default_config / 100) \<and>
   targetPrice example_second_position
     \<noteq> entryPrice example_second_position * (1 + followUpProfitTarget default_config / 100) \<and>
   stopLossPrice example_second_position
     = entryPrice example_second_position * (1 - initialStopLoss default_config / 100) \<and>
   stopLossPrice example_second_position
     \<noteq> entryPrice example_second_position * (1 - followUpStopLoss default_config / 100)"
  using entry_after_target_hit_action
  by (simp add: after_target_hit_eq example_trade_def example_second_position_def default_config_def)

text \<open>
  The answer \<open>Outside trading hours\<close> comes from the first test of \<open>execute\<close> only.
\<close>

lemma enterPosition_not_outside:
  "fst (enterPosition cfg kite now sig s) \<noteq> NO_ACTION OutsideTradingHours"
  by (cases s) (simp add: enterPosition_def Let_def split: prod.splits)

lemma lookForEntry_not_outside:
  "fst (lookForEntry cfg kite now md s) \<noteq> NO_ACTION OutsideTradingHours"
  by (simp add: lookForEntry_def Let_def enterPosition_not_outside)

lemma manageExistingPosition_not_outside:
  "fst (manageExistingPosition cfg now md p st) \<noteq> NO_ACTION OutsideTradingHours"
  by (simp add: manageExistingPosition_def handleTargetHit_def handleStopLossHit_def Let_def)

text \<open>
  C8, as the code has it. \<open>isMarketHours\<close> compares with \<open>>=\<close> and \<open><=\<close>, so the window
  includes both of its end instants. Whenever the clock is before the start or after the
  end of the window, \<open>execute\<close> answers \<open>NO_ACTION\<close> (outside trading hours) and changes
  neither the strategy's state nor the order manager's, whatever that state is. At every
  instant from the start to the end of the window, the two end instants included, it
  does not give that answer: it goes on to the risk check and the strategy.
\<close>

theorem execute_trading_window:
  "(now < parseTime now (tradingStartTime cfg) \<or> parseTime now (tradingEndTime cfg) < now \<longrightarrow>
      execute cfg kite rm now md (st, om) = (NO_ACTION OutsideTradingHours, st, om)) \<and>
   (parseTime now (tradingStartTime cfg) \<le> now \<and> now \<le> parseTime now (tradingEndTime cfg) \<longrightarrow>
      fst (execute cfg kite rm now md (st, om)) \<noteq> NO_ACTION OutsideTradingHours)"
proof (intro conjI impI)
  assume "now < parseTime now (tradingStartTime cfg) \<or> parseTime now (tradingEndTime cfg) < now"
  then show "execute cfg kite rm now md (st, om) = (NO_ACTION OutsideTradingHours, st, om)"
    by (auto simp: execute_def isMarketHours_def Let_def)
next
  assume "parseTime now (tradingStartTime cfg) \<le> now \<and> now \<le> parseTime now (tradingEndTime cfg)"
  then have inside: "isMarketHours cfg now" by (simp add: isMarketHours_def Let_def)
  define st1 where
    "st1 = (if waitingForCandle st then st \<lparr> waitingForCandle := False \<rparr> else st)"
  have rest:
    "fst (case currentPosition st1 of
            Some p \<Rightarrow> (case manageExistingPosition cfg now md p st1 of
                         (a, st2) \<Rightarrow> (a, st2, om))
          | None \<Rightarrow> lookForEntry cfg kite now md (st1, om))
       \<noteq> NO_ACTION OutsideTradingHours"
  proof (cases "currentPosition st1")
    case None
    then show ?thesis by (simp add: lookForEntry_not_outside)
  next
    case (Some p)
    obtain a st2 where m: "manageExistingPosition cfg now md p st1 = (a, st2)"
      by (cases "manageExistingPosition cfg now md p st1")
    with manageExistingPosition_not_outside [of cfg now md p st1]
    have "a \<noteq> NO_ACTION OutsideTradingHours" by simp
    with Some m show ?thesis by simp
  qed
  show "fst (execute cfg kite rm now md (st, om)) \<noteq> NO_ACTION OutsideTradingHours"
    using inside rest unfolding execute_def Let_def st1_def by simp
qed

text \<open>
  One millisecond before 10:00, with a position open: nothing happens. At 15:15:00.000
  exactly, the end of the default window, the answer is not \<open>Outside trading hours\<close>.
\<close>

theorem execute_trading_window_witness:
  "35999999 < parseTime 35999999 (tradingStartTime default_config) \<and>
   execute default_config venue_accepts (RiskManager_new default_options) 35999999
     (quote 250 240) (fst after_first_entry, snd after_first_entry)
   = (NO_ACTION OutsideTradingHours, fst after_first_entry, snd after_first_entry) \<and>
   parseTime 54900000 (tradingStartTime default_config) \<le> 54900000 \<and>
   54900000 \<le> parseTime 54900000 (tradingEndTime default_config) \<and>
   fst (execute default_config venue_accepts (RiskManager_new default_options) 54900000
          (quote 101 99) (fst after_first_entry, snd after_first_entry))
     \<noteq> NO_ACTION OutsideTradingHours"
proof -
  have before: "35999999 < parseTime 35999999 (tradingStartTime default_config)"
    by (simp add: parseTime_def startOfDay_def default_config_def)
  have inside: "parseTime 54900000 (tradingStartTime default_config) \<le> 54900000 \<and>
                54900000 \<le> parseTime 54900000 (tradingEndTime default_config)"
    by (simp add: parseTime_def startOfDay_def default_config_def)
  from execute_trading_window [of 35999999 default_config venue_accepts
      "RiskManager_new default_options" "quote 250 240"
      "fst after_first_entry" "snd after_first_entry"]
    execute_trading_window [of 54900000 default_config venue_accepts
      "RiskManager_new default_options" "quote 101 99"
      "fst after_first_entry" "snd after_first_entry"]
    before inside
  show ?thesis by simp
qed

text \<open>
  C8 as stated also covers the two end instants of the window, which are not strictly
  inside it. At 10:00:00.000 exactly, the start of the default window, a fresh strategy
  enters a position. At 15:15:00.000 exactly, its end, a strategy whose position has
  reached its target closes it: the position is gone and a trade is recorded.
\<close>

theorem execute_at_window_ends_counterexample:
  "parseTime 36000000 (tradingStartTime default_config) = 36000000 \<and>
   currentPosition initial_state = None \<and>
   execute default_config venue_accepts (RiskManager_new default_options) 36000000
     (quote 100 99) (initial_state, OrderManager_new None)
     = (POSITION_ENTERED
          \<lparr> orderId = Some ''ORD1'', entryPrice = 100, quantity = Num 20, direction = ''BUY'',
            targetPrice = 100.75, stopLossPrice = 99.65, entryTime = 36000000,
            isFollowUp = False \<rparr> ''Price above opening'',
        fst after_first_entry, snd after_first_entry) \<and>
   parseTime 54900000 (tradingEndTime default_config) = 54900000 \<and>
   fst (execute default_config venue_accepts (RiskManager_new default_options) 54900000
          (quote 101 99) after_first_entry)
     = TARGET_HIT
         \<lparr> orderId = Some ''ORD1'', entryPrice = 100, quantity = Num 20, direction = ''BUY'',
           targetPrice = 100.75, stopLossPrice = 99.65, entryTime = 36000000,
           isFollowUp = False \<rparr> 57600000 \<and>
   currentPosition (fst after_first_entry)
     = Some \<lparr> orderId = Some ''ORD1'', entryPrice = 100, quantity = Num 20,
              direction = ''BUY'', targetPrice = 100.75, stopLossPrice = 99.65,
              entryTime = 36000000, isFollowUp = False \<rparr> \<and>
   currentPosition (fst (snd (execute default_config venue_accepts
       (RiskManager_new default_options) 54900000 (quote 101 99) after_first_entry))) = None \<and>
   length (dailyTrades (fst (snd (execute default_config venue_accepts
       (RiskManager_new default_options) 54900000 (quote 101 99) after_first_entry)))) = 1"
proof -
  have start: "execute default_config venue_accepts (RiskManager_new default_options) 36000000
     (quote 100 99) (initial_state, OrderManager_new None)
     = (POSITION_ENTERED
          \<lparr> orderId = Some ''ORD1'', entryPrice = 100, quantity = Num 20, direction = ''BUY'',
            targetPrice = 100.75, stopLossPrice = 99.65, entryTime = 36000000,
            isFollowUp = False \<rparr> ''Price above opening'',
        fst after_first_entry, snd after_first_entry)"
    unfolding after_first_entry_eq by (simp add: eval_defs example_active_order_def)
  show ?thesis
    unfolding start
    by (simp add: after_first_entry_eq)
       (simp add: eval_defs)
qed

section \<open>Properties of the market data service\<close>

subsection \<open>Aggregation\<close>

lemma fold_volume: "fold (\<lambda>c s. s + volume c) cs a = a + sum_list (map volume cs)"
  by (induction cs arbitrary: a) simp_all

text \<open>
  A list that fills exactly one batch: the loop body runs once and the loop ends.
\<close>

lemma aggregate_one_batch:
  assumes "candles = b # bs" and "length candles = minutes"
  shows "aggregateCandles candles minutes =
     Some [\<lparr> open_price = open_price b,
             high = Max (set (map high candles)),
             low = Min (set (map low candles)),
             close = close (last candles),
             volume = sum_list (map volume candles),
             timestamp = timestamp b \<rparr>]"
proof -
  have pos: "0 < length candles" using assms(1) by simp
  have batch: "take minutes (drop 0 candles) = b # bs" using assms by simp
  have stop: "\<not> (0 + minutes < length candles)" using assms(2) by simp
  have "aggregateCandles candles minutes =
          aggregate_loop candles minutes (0 + minutes)
            ([] @ [\<lparr> open_price = open_price b,
                    high = fold max (map high bs) (high b),
                    low = fold min (map low bs) (low b),
                    close = close (last (b # bs)),
                    volume = fold (\<lambda>c sum. sum + volume c) (b # bs) 0,
                    timestamp = timestamp b \<rparr>])"
    unfolding aggregateCandles_def
    by (subst aggregate_loop.simps) (simp only: pos batch if_True list.case)
  also have "\<dots> = Some [\<lparr> open_price = open_price b,
                    high = fold max (map high bs) (high b),
                    low = fold min (map low bs) (low b),
                    close = close (last (b # bs)),
                    volume = fold (\<lambda>c sum. sum + volume c) (b # bs) 0,
                    timestamp = timestamp b \<rparr>]"
    by (subst aggregate_loop.simps) (simp only: stop if_False append_Nil)
  finally have run: "aggregateCandles candles minutes =
      Some [\<lparr> open_price = open_price b,
              high = fold max (map high bs) (high b),
              low = fold min (map low bs) (low b),
              close = close (last (b # bs)),
              volume = fold (\<lambda>c sum. sum + volume c) (b # bs) 0,
              timestamp = timestamp b \<rparr>]" .
  have hi: "fold max (map high bs) (high b) = Max (set (map high candles))"
    unfolding assms(1) list.map by (rule Max.set_eq_fold [symmetric])
  have lo: "fold min (map low bs) (low b) = Min (set (map low candles))"
    unfolding assms(1) list.map by (rule Min.set_eq_fold [symmetric])
  have vol: "fold (\<lambda>c sum. sum + volume c) (b # bs) 0 = sum_list (map volume candles)"
    unfolding assms(1) by (simp only: fold_volume add_0)
  show ?thesis unfolding run hi lo vol by (simp only: assms(1))
qed

text \<open>
  C6. Sixty minute candles aggregate to exactly one candle: timestamp and open of the
  first, close of the sixtieth, the maximum of the highs, the minimum of the lows, the
  sum of the volumes. \<open>getCandleData\<close> with the timeframe \<open>hour\<close> gives the same for a
  store that holds these sixty candles, for every limit of at least 60 (the default is
  100).
\<close>

theorem aggregate_sixty_minutes:
  assumes "length candles = 60"
  shows "aggregateCandles candles 60 =
           Some [\<lparr> open_price = open_price (candles ! 0),
                   high = Max (set (map high candles)),
                   low = Min (set (map low candles)),
                   close = close (candles ! 59),
                   volume = sum_list (map volume candles),
                   timestamp = timestamp (candles ! 0) \<rparr>] \<and>
         (candleData symb = Some store \<and> sort_key timestamp (map snd store) = candles \<and>
          60 \<le> limit \<longrightarrow>
            getCandleData candleData symb ''hour'' limit = aggregateCandles candles 60)"
proof -
  from assms obtain b bs where c: "candles = b # bs" by (cases candles) auto
  have "candles \<noteq> []" using c by simp
  then have "last candles = candles ! (length candles - 1)" by (rule last_conv_nth)
  then have l: "last candles = candles ! 59" by (simp only: assms) simp
  have b0: "b = candles ! 0" by (simp only: c nth_Cons_0)
  have a: "aggregateCandles candles 60 =
           Some [\<lparr> open_price = open_price (candles ! 0),
                   high = Max (set (map high candles)),
                   low = Min (set (map low candles)),
                   close = close (candles ! 59),
                   volume = sum_list (map volume candles),
                   timestamp = timestamp (candles ! 0) \<rparr>]"
    using aggregate_one_batch [OF c assms] by (simp only: l b0 [symmetric])
  show ?thesis
  proof (intro conjI impI)
    show "aggregateCandles candles 60 =
           Some [\<lparr> open_price = open_price (candles ! 0),
                   high = Max (set (map high candles)),
                   low = Min (set (map low candles)),
                   close = close (candles ! 59),
                   volume = sum_list (map volume candles),
                   timestamp = timestamp (candles ! 0) \<rparr>]"
      by (rule a)
  next
    assume h: "candleData symb = Some store \<and>
               sort_key timestamp (map snd store) = candles \<and> 60 \<le> limit"
    then have "slice_last limit (sort_key timestamp (map snd store)) = candles"
      using assms by (auto simp: slice_last_def)
    with h show "getCandleData candleData symb ''hour'' limit = aggregateCandles candles 60"
      by (simp add: getCandleData_def)
  qed
qed

lemma sixty_eval:
  "length sixty_candles = 60"
  "sixty_candles ! 0 = minute_candle 0"
  "sixty_candles ! 59 = minute_candle 59"
  by (simp_all add: sixty_candles_def)

lemma sixty_high: "Max (set (map high sixty_candles)) = 160"
proof (rule Max_eqI)
  show "finite (set (map high sixty_candles))" by simp
  show "y \<le> 160" if "y \<in> set (map high sixty_candles)" for y
    using that by (auto simp: sixty_candles_def minute_candle_def)
  have "high (minute_candle 59) \<in> set (map high sixty_candles)"
    unfolding sixty_candles_def by (simp del: upt_Suc)
  then show "160 \<in> set (map high sixty_candles)" by (simp add: minute_candle_def)
qed

lemma sixty_low: "Min (set (map low sixty_candles)) = 99"
proof (rule Min_eqI)
  show "finite (set (map low sixty_candles))" by simp
  show "99 \<le> y" if "y \<in> set (map low sixty_candles)" for y
    using that by (auto simp: sixty_candles_def minute_candle_def)
  have "low (minute_candle 0) \<in> set (map low sixty_candles)"
    unfolding sixty_candles_def by (simp del: upt_Suc)
  then show "99 \<in> set (map low sixty_candles)" by (simp add: minute_candle_def)
qed

lemma sixty_volume: "sum_list (map volume sixty_candles) = 600"
  by (simp add: sixty_candles_def minute_candle_def comp_def sum_list_triv del: upt_Suc)

lemma sixty_sorted:
  "sort_key timestamp (map snd (map (\<lambda>c. (timestamp c, c)) sixty_candles)) = sixty_candles"
proof -
  have "sorted (map timestamp sixty_candles)"
    unfolding sixty_candles_def
    by (simp add: sorted_map minute_candle_def comp_def sorted_wrt_iff_nth_less del: upt_Suc)
  then have "sort_key timestamp sixty_candles = sixty_candles"
    by (rule sort_key_id_if_sorted)
  then show ?thesis by (simp add: comp_def)
qed

text \<open>
  The sixty rising candles: open 100 of the first, close 159.5 of the last, highest high
  160, lowest low 99, volume 600.
\<close>

theorem aggregate_sixty_minutes_witness:
  "length sixty_candles = 60 \<and>
   aggregateCandles sixty_candles 60 =
     Some [\<lparr> open_price = 100, high = 160, low = 99, close = 159.5, volume = 600,
             timestamp = 0 \<rparr>] \<and>
   getCandleData sixty_store ''NSE:NIFTY 50'' ''hour'' 100 =
     Some [\<lparr> open_price = 100, high = 160, low = 99, close = 159.5, volume = 600,
             timestamp = 0 \<rparr>]"
proof -
  have len: "length sixty_candles = 60" by (rule sixty_eval(1))
  have st: "sixty_store ''NSE:NIFTY 50'' = Some (map (\<lambda>c. (timestamp c, c)) sixty_candles) \<and>
        sort_key timestamp (map snd (map (\<lambda>c. (timestamp c, c)) sixty_candles)) = sixty_candles \<and>
        (60::int) \<le> 100"
    using sixty_sorted by (simp add: sixty_store_def)
  from aggregate_sixty_minutes [OF len, of sixty_store "''NSE:NIFTY 50''"
      "map (\<lambda>c. (timestamp c, c)) sixty_candles" 100] st len
  show ?thesis
    by (simp add: sixty_high sixty_low sixty_volume sixty_eval minute_candle_def del: set_map)
qed

subsection \<open>Retention\<close>

lemma length_update:
  "length (AList.update k v m) = (if k \<in> fst ` set m then length m else Suc (length m))"
  by (induction m) auto

lemma storeHistorical_Cons:
  "storeHistorical (h # hs) m =
     storeHistorical hs
       (AList.update (date h)
          \<lparr> open_price = open_price h, high = high h, low = low h, close = close h,
            volume = volume h, timestamp = date h \<rparr> m)"
  by (simp add: storeHistorical_def)

lemma storeHistorical_length:
  "distinct (map date hs) \<Longrightarrow> date ` set hs \<inter> fst ` set m = {} \<Longrightarrow>
   length (storeHistorical hs m) = length m + length hs"
proof (induction hs arbitrary: m)
  case Nil
  then show ?case by (simp add: storeHistorical_def)
next
  case (Cons h hs)
  let ?m = "AList.update (date h)
          \<lparr> open_price = open_price h, high = high h, low = low h, close = close h,
            volume = volume h, timestamp = date h \<rparr> m"
  from Cons.prems have fresh: "date h \<notin> fst ` set m" by auto
  then have len: "length ?m = Suc (length m)" by (simp add: length_update)
  have keys: "fst ` set ?m = insert (date h) (fst ` set m)" by (simp add: AList.dom_update)
  from Cons.prems have "distinct (map date hs)" and "date ` set hs \<inter> fst ` set ?m = {}"
    unfolding keys by auto
  from Cons.IH [OF this] len show ?case by (simp add: storeHistorical_Cons)
qed

lemma delete_present_shorter:
  "k \<in> fst ` set m \<Longrightarrow> length (AList.delete k m) < length m"
proof (induction m)
  case Nil
  then show ?case by simp
next
  case (Cons p ps)
  show ?case
  proof (cases "fst p = k")
    case True
    have "length (AList.delete k ps) \<le> length ps" by (rule AList.length_delete_le)
    with True show ?thesis by simp
  next
    case False
    with Cons.prems have "k \<in> fst ` set ps" by auto
    from Cons.IH [OF this] False show ?thesis by simp
  qed
qed

text \<open>
  The per-tick update keeps a store of at most 1000 candles at most 1000 candles long:
  it adds at most one candle and then removes the one with the smallest key.
\<close>

lemma updateCandleData_keeps_limit:
  assumes "(case candleData symb of None \<Rightarrow> 0 | Some m \<Rightarrow> length m) \<le> 1000"
  shows "(case updateCandleData now candleData symb d symb of
            None \<Rightarrow> 0 | Some m' \<Rightarrow> length m') \<le> 1000"
proof -
  define m where "m = (case candleData symb of None \<Rightarrow> [] | Some m \<Rightarrow> m)"
  have lm: "length m \<le> 1000" using assms by (simp add: m_def split: option.splits)
  have upd: "length (AList.update k v m) \<le> 1001" for k v
    using lm by (simp add: length_update)
  have evict: "length (if length m1 > 1000
                       then (let oldestKey = Min (set (map fst m1)) in AList.delete oldestKey m1)
                       else m1) \<le> 1000"
    if "length m1 \<le> 1001" for m1 :: symbol_candles
  proof (cases "length m1 > 1000")
    case True
    then have "m1 \<noteq> []" by auto
    then have "Min (set (map fst m1)) \<in> set (map fst m1)" by (intro Min_in) simp_all
    then have "Min (set (map fst m1)) \<in> fst ` set m1" by simp
    from delete_present_shorter [OF this] that True show ?thesis by (simp add: Let_def)
  next
    case False
    then show ?thesis by simp
  qed
  define m1 where "m1 =
      (case map_of m (now - now mod 60000) of
         Some currentCandle \<Rightarrow>
           AList.update (now - now mod 60000)
             (currentCandle \<lparr> high := max (high currentCandle) (ltp d),
                              low := min (low currentCandle) (ltp d),
                              close := ltp d, volume := volume d \<rparr>) m
       | None \<Rightarrow>
           AList.update (now - now mod 60000)
             \<lparr> open_price = ltp d, high = ltp d, low = ltp d, close = ltp d,
               volume = volume d, timestamp = now - now mod 60000 \<rparr> m)"
  have "length m1 \<le> 1001" by (simp add: m1_def upd split: option.split)
  from evict [OF this] show ?thesis
    unfolding updateCandleData_def Let_def m_def [symmetric] m1_def [symmetric] by simp
qed

text \<open>
  C7. The historical-data load has no such step. Loading 1001 candles of distinct dates
  into an empty store leaves 1001 candles in it.
\<close>

theorem loadHistoricalData_exceeds_limit:
  "map_option length (loadHistoricalData venue_history one_instrument no_candles ''NSE:NIFTY 50'')
     = Some 1001"
proof -
  have inj: "inj_on ((*) (60000::nat)) {0..<1001}" by (simp add: inj_on_def)
  have "distinct (map date (map historical_minute [0..<1001]))"
    by (simp add: comp_def historical_minute_def distinct_map inj del: upt_Suc)
  then have "length (storeHistorical (map historical_minute [0..<1001]) []) = 1001"
    by (simp add: storeHistorical_length del: upt_Suc)
  then show ?thesis
    by (simp add: loadHistoricalData_def one_instrument_def venue_history_def no_candles_def
          del: upt_Suc)
qed

end
